theory Spec2Isabelle
  imports Main "HOL-Library.AList"
begin

section \<open>Values, dictionaries and errors\<close>

text \<open>
  The payloads, templates and model results of \<^verbatim>\<open>server/fury/agent.py\<close> are JSON-like
  Python objects. A Python \<^verbatim>\<open>dict\<close> keeps its keys in insertion order and holds every key
  once: it is an association list, read with \<open>map_of\<close>.
\<close>

datatype jval =
    JNull
  | JBool bool
  | JNum int
  | JStr string
  | JList "jval list"
  | JDict "(string \<times> jval) list"

type_synonym pydict = "(string \<times> jval) list"

text \<open>One step of an extraction path: a key at a mapping level, an index at a sequence level.\<close>

datatype key = K string | I int

text \<open>
  The exceptions of the source, as values; one constructor for each \<^verbatim>\<open>raise\<close> or
  \<^verbatim>\<open>assert\<close> of the code:
  \<^item> \<open>DuplicateId\<close>: \<^verbatim>\<open>Exception("Model ... already registered")\<close>,
    \<^verbatim>\<open>Exception("Node ... already registered")\<close>;
  \<^item> \<open>NotFound\<close>: \<^verbatim>\<open>ValueError("... not found")\<close> of the three \<^verbatim>\<open>get\<close>;
  \<^item> \<open>NoReturns\<close>: the failed \<^verbatim>\<open>assert len(returns)\<close> of the programmatic registry;
  \<^item> \<open>ParamsNotSubset\<close>: \<^verbatim>\<open>Exception("Model params ... not a subset of ...")\<close>;
  \<^item> \<open>FieldNotFound\<close>: \<^verbatim>\<open>ValueError("Field ... not found in ..., but was extraced")\<close>;
  \<^item> \<open>NotAFunction\<close>: the failed \<^verbatim>\<open>assert type(fn) == type(func_to_return_vars)\<close>;
  \<^item> \<open>MissingField name node\<close>: \<^verbatim>\<open>Exception("Field ... is required in ... but not present")\<close>;
  \<^item> \<open>NotADict\<close>: \<^verbatim>\<open>Exception("AI Action preprocessor for ... did not return a dict")\<close>;
  \<^item> \<open>UpstreamError\<close>: an exception raised inside a callable or a library, or the error a
    model returns;
  \<^item> \<open>ChainError\<close>: the \<^verbatim>\<open>ValueError\<close>s of \<^verbatim>\<open>get_chain_from_id\<close>.
\<close>

datatype error =
    DuplicateId string
  | NotFound string
  | NoReturns
  | ParamsNotSubset
  | FieldNotFound "key list"
  | NotAFunction
  | MissingField string string
  | NotADict string
  | UpstreamError string
  | ChainError string

definition dict_has :: "(string \<times> 'v) list \<Rightarrow> string \<Rightarrow> bool" where
  "dict_has d k = (k \<in> set (map fst d))"

definition dict_get :: "(string \<times> 'v) list \<Rightarrow> string \<Rightarrow> 'v \<Rightarrow> 'v" where
  "dict_get d k dflt = (case map_of d k of None \<Rightarrow> dflt | Some v \<Rightarrow> v)"

text \<open>\<^verbatim>\<open>d.update(e)\<close>: the items of \<open>e\<close> are stored into \<open>d\<close> one after the other.\<close>

definition dict_update :: "(string \<times> 'v) list \<Rightarrow> (string \<times> 'v) list \<Rightarrow> (string \<times> 'v) list" where
  "dict_update d e = fold (\<lambda>(k, v) acc. AList.update k v acc) e d"

text \<open>Python truthiness of a JSON value (\<^verbatim>\<open>if not obj\<close>).\<close>

fun truthy :: "jval \<Rightarrow> bool" where
  "truthy JNull = False"
| "truthy (JBool b) = b"
| "truthy (JNum n) = (n \<noteq> 0)"
| "truthy (JStr s) = (s \<noteq> [])"
| "truthy (JList xs) = (xs \<noteq> [])"
| "truthy (JDict kvs) = (kvs \<noteq> [])"

section \<open>Field descriptors and callables\<close>

text \<open>
  \<^verbatim>\<open>Var\<close> of \<^verbatim>\<open>fury.base\<close>: the code of \<^verbatim>\<open>agent.py\<close> reads \<^verbatim>\<open>name\<close> and \<^verbatim>\<open>required\<close> and
  writes \<^verbatim>\<open>type\<close>, \<^verbatim>\<open>name\<close> and \<^verbatim>\<open>_loc\<close>.
\<close>

record Var =
  name :: string
  required :: bool
  vtype :: string
  loc :: "key list"

text \<open>
  A Python callable: the parameters its signature declares and what a call with keyword
  arguments gives. \<open>'r\<close> is \<open>error + jval\<close> for a plain function (it raises or returns) and
  \<open>jval \<times> error option\<close> for a model, whose call protocol is the pair (result, error).
\<close>

record 'r callable =
  params :: "Var list"
  run :: "pydict \<Rightarrow> 'r"

text \<open>
  Modelled from the spec: \<^verbatim>\<open>func_to_vars\<close> of \<^verbatim>\<open>fury.base\<close> is not among the sources. The
  spec says a registry "derives field descriptors by introspecting the supplied callable's
  parameters".
\<close>

definition func_to_vars :: "'r callable \<Rightarrow> Var list" where
  "func_to_vars f = params f"

text \<open>
  Modelled from the spec: \<^verbatim>\<open>func_to_return_vars\<close> of \<^verbatim>\<open>fury.base\<close> is not among the sources.
  The spec derives "output fields from a caller-declared return-shape mapping": one
  descriptor for each declared name, carrying its extraction path.
\<close>

definition func_to_return_vars :: "(string \<times> key list) list \<Rightarrow> Var list" where
  "func_to_return_vars returns =
     map (\<lambda>(k, l). \<lparr>name = k, required = False, vtype = ''any'', loc = l\<rparr>) returns"

section \<open>Model registry\<close>

record Model =
  collection_name :: string
  model_id :: string
  model_fn :: "(jval \<times> error option) callable"
  model_description :: string
  vars :: "Var list"
  tags :: "string list"

text \<open>
  The three registries each hold \<^verbatim>\<open>self.counter\<close>; the records share that field through a
  common parent.
\<close>

record Registry =
  counter :: "(string \<times> nat) list"

record ModelRegistry = Registry +
  models :: "(string \<times> Model) list"
  tags_to_models :: "(string \<times> string list) list"

definition ModelRegistry_init :: ModelRegistry where
  "ModelRegistry_init = \<lparr>counter = [], models = [], tags_to_models = []\<rparr>"

text \<open>
  \<^verbatim>\<open>for tag in tags: self.tags_to_models[tag] = self.tags_to_models.get(tag, []) + [id]\<close>
\<close>

definition add_tags :: "string list \<Rightarrow> string \<Rightarrow> (string \<times> string list) list \<Rightarrow> (string \<times> string list) list" where
  "add_tags tgs ident idx = fold (\<lambda>tag t. AList.update tag (dict_get t tag [] @ [ident]) t) tgs idx"

definition ModelRegistry_has :: "ModelRegistry \<Rightarrow> string \<Rightarrow> bool" where
  "ModelRegistry_has reg mid = dict_has (models reg) mid"

definition ModelRegistry_register ::
  "ModelRegistry \<Rightarrow> (jval \<times> error option) callable \<Rightarrow> string \<Rightarrow> string \<Rightarrow> string \<Rightarrow> string list
     \<Rightarrow> error + ModelRegistry" where
  "ModelRegistry_register reg f cname mid descr tgs =
     (if dict_has (models reg) mid then Inl (DuplicateId mid)
      else Inr (reg\<lparr>models := AList.update mid
                        \<lparr>collection_name = cname, model_id = mid, model_fn = f,
                         model_description = descr, vars = func_to_vars f, tags = tgs\<rparr>
                        (models reg),
                     tags_to_models := add_tags tgs mid (tags_to_models reg)\<rparr>))"

definition ModelRegistry_get_tags :: "ModelRegistry \<Rightarrow> string list" where
  "ModelRegistry_get_tags reg = map fst (tags_to_models reg)"

text \<open>
  \<^verbatim>\<open>return [{k: v.to_dict()} for k, v in self.models.items()]\<close>; \<^verbatim>\<open>to_dict\<close> belongs to
  \<^verbatim>\<open>fury.base\<close> and is a parameter here.
\<close>

definition ModelRegistry_get_models ::
  "(Model \<Rightarrow> jval) \<Rightarrow> ModelRegistry \<Rightarrow> string \<Rightarrow> pydict list" where
  "ModelRegistry_get_models to_dict reg tag = map (\<lambda>(k, v). [(k, to_dict v)]) (models reg)"

text \<open>
  \<^verbatim>\<open>get\<close> writes the counter first and looks the id up afterwards: the new registry is
  returned in both outcomes.
\<close>

definition bump :: "(string \<times> nat) list \<Rightarrow> string \<Rightarrow> (string \<times> nat) list" where
  "bump c k = AList.update k (dict_get c k 0 + 1) c"

definition ModelRegistry_get :: "ModelRegistry \<Rightarrow> string \<Rightarrow> (error + Model) \<times> ModelRegistry" where
  "ModelRegistry_get reg mid =
     (let reg' = reg\<lparr>counter := bump (counter reg) mid\<rparr>
      in case map_of (models reg') mid of
           None \<Rightarrow> (Inl (NotFound mid), reg')
         | Some out \<Rightarrow> (Inr out, reg'))"

definition get_count_for_model :: "ModelRegistry \<Rightarrow> string \<Rightarrow> nat" where
  "get_count_for_model reg mid = dict_get (counter reg) mid 0"

section \<open>Nested paths and placeholders\<close>

text \<open>Python indexing of a sequence: a negative index counts from the end.\<close>

definition py_index :: "'a list \<Rightarrow> int \<Rightarrow> nat option" where
  "py_index xs i =
     (if 0 \<le> i \<and> i < int (length xs) then Some (nat i)
      else if i < 0 \<and> - int (length xs) \<le> i then Some (nat (int (length xs) + i))
      else None)"

fun get_child :: "jval \<Rightarrow> key \<Rightarrow> jval option" where
  "get_child (JDict kvs) (K k) = map_of kvs k"
| "get_child (JList xs) (I i) = (case py_index xs i of None \<Rightarrow> None | Some j \<Rightarrow> Some (xs ! j))"
| "get_child _ _ = None"

text \<open>\<^verbatim>\<open>obj[k] = x\<close>: a dict takes any key, a list only an index it has.\<close>

fun set_child :: "jval \<Rightarrow> key \<Rightarrow> jval \<Rightarrow> jval option" where
  "set_child (JDict kvs) (K k) x = Some (JDict (AList.update k x kvs))"
| "set_child (JList xs) (I i) x = (case py_index xs i of None \<Rightarrow> None | Some j \<Rightarrow> Some (JList (xs[j := x])))"
| "set_child _ _ _ = None"

text \<open>
  Modelled from the spec: \<^verbatim>\<open>get_value_by_keys\<close> of \<^verbatim>\<open>fury.base\<close> is not among the sources.
  The spec walks "the recorded path (keys for mapping levels, indices for sequence levels)"
  and asks for "a small recursive accessor operating over a tagged value (mapping, sequence,
  scalar), returning a not-found result rather than throwing".
\<close>

fun get_value_by_keys :: "jval \<Rightarrow> key list \<Rightarrow> jval option" where
  "get_value_by_keys v [] = Some v"
| "get_value_by_keys v (k # ks) =
     (case get_child v k of None \<Rightarrow> None | Some c \<Rightarrow> get_value_by_keys c ks)"

text \<open>
  Modelled from the spec: \<^verbatim>\<open>put_value_by_keys\<close> of \<^verbatim>\<open>fury.base\<close> is not among the sources.
  It is the setter of the same accessor: it writes the value "back at its recorded path".
  The source mutates the object in place; the model returns the new object, and \<open>None\<close>
  where the path leads nowhere (the empty path names no slot of the object).
\<close>

fun put_value_by_keys :: "jval \<Rightarrow> key list \<Rightarrow> jval \<Rightarrow> jval option" where
  "put_value_by_keys v [] x = None"
| "put_value_by_keys v [k] x = set_child v k x"
| "put_value_by_keys v (k # ks) x =
     (case get_child v k of
        None \<Rightarrow> None
      | Some c \<Rightarrow> (case put_value_by_keys c ks x of None \<Rightarrow> None | Some c' \<Rightarrow> set_child v k c'))"

text \<open>
  The placeholders of a string: the texts between \<^verbatim>\<open>{{\<close> and the next \<^verbatim>\<open>}}\<close>, found by one
  pass over the characters.
\<close>

datatype scan_mode = Text | Open1 | Inside string | Close1 string

fun scan_step :: "char \<Rightarrow> scan_mode \<times> string list \<Rightarrow> scan_mode \<times> string list" where
  "scan_step c (Text, acc) = (if c = CHR ''{'' then (Open1, acc) else (Text, acc))"
| "scan_step c (Open1, acc) = (if c = CHR ''{'' then (Inside [], acc) else (Text, acc))"
| "scan_step c (Inside b, acc) = (if c = CHR ''}'' then (Close1 b, acc) else (Inside (b @ [c]), acc))"
| "scan_step c (Close1 b, acc) =
     (if c = CHR ''}'' then (Text, acc @ [b]) else (Inside (b @ [CHR ''}'', c]), acc))"

definition placeholders :: "string \<Rightarrow> string list" where
  "placeholders s = snd (fold scan_step s (Text, []))"

definition strip :: "string \<Rightarrow> string" where
  "strip s = rev (dropWhile (\<lambda>c. c = CHR '' '') (rev (dropWhile (\<lambda>c. c = CHR '' '') s)))"

text \<open>
  Modelled from the spec: \<^verbatim>\<open>jtype_to_vars\<close> of \<^verbatim>\<open>fury.base\<close> is not among the sources. The
  spec records for a placeholder leaf "the set of variable names referenced", which "yields
  the action's input field list", and calls them "the AI-action's own required fields".
\<close>

definition jtype_to_vars :: "string \<Rightarrow> Var list" where
  "jtype_to_vars s =
     map (\<lambda>n. \<lparr>name = n, required = True, vtype = ''string'', loc = []\<rparr>)
       (remdups (filter (\<lambda>n. n \<noteq> []) (map strip (placeholders s))))"

text \<open>
  Modelled from the spec: \<^verbatim>\<open>extract_jinja_indices\<close> of \<^verbatim>\<open>fury.base\<close> is not among the
  sources. The spec says: "scan it for placeholder occurrences matching \<^verbatim>\<open>{{name}}\<close>,
  recording, for each occurrence, the nested path to the containing leaf and the set of
  variable names referenced". The code reads an entry as (path, variables).
\<close>

fun extract_jinja_indices :: "jval \<Rightarrow> (key list \<times> Var list) list"
  and extract_list :: "nat \<Rightarrow> jval list \<Rightarrow> (key list \<times> Var list) list"
  and extract_dict :: "(string \<times> jval) list \<Rightarrow> (key list \<times> Var list) list" where
  "extract_jinja_indices (JStr s) = (if placeholders s \<noteq> [] then [([], jtype_to_vars s)] else [])"
| "extract_jinja_indices (JList xs) = extract_list 0 xs"
| "extract_jinja_indices (JDict kvs) = extract_dict kvs"
| "extract_jinja_indices JNull = []"
| "extract_jinja_indices (JBool b) = []"
| "extract_jinja_indices (JNum n) = []"
| "extract_list i [] = []"
| "extract_list i (x # xs) =
     map (\<lambda>(p, vs). (I (int i) # p, vs)) (extract_jinja_indices x) @ extract_list (Suc i) xs"
| "extract_dict [] = []"
| "extract_dict ((k, v) # kvs) =
     map (\<lambda>(p, vs). (K k # p, vs)) (extract_jinja_indices v) @ extract_dict kvs"

section \<open>AI actions\<close>

text \<open>
  The \<^verbatim>\<open>fn\<close> argument of an AI action is any Python object: a dict is a template, a
  function is a pre-processor, anything else fails the assertion of \<^verbatim>\<open>__init__\<close>.
\<close>

datatype fn_object =
    FnDict pydict
  | FnFunc "(error + jval) callable"
  | FnOther jval

datatype action_source = JTYPE | FUNC

text \<open>
  \<^verbatim>\<open>self.templates\<close> holds \<^verbatim>\<open>(obj, jinja2.Template(obj), keys)\<close>; the compiled template is
  a function of \<^verbatim>\<open>obj\<close>, so the pair (raw string, path) stands for the triple.
  \<^verbatim>\<open>self.fields\<close> is \<open>a_fields\<close> (\<open>fields\<close> is taken by the record package).
\<close>

record AIAction =
  node_id :: string
  model :: Model
  model_params :: pydict
  fn :: fn_object
  action_source :: action_source
  a_fields :: "Var list"
  outputs :: "(string \<times> key list) list"
  templates :: "(string \<times> key list) list"

text \<open>
  The loop of \<^verbatim>\<open>__init__\<close> over \<^verbatim>\<open>fields_with_locations\<close>: \<^verbatim>\<open>fields.extend(field[1])\<close>, then
  the leaf is read back and kept with its path. \<^verbatim>\<open>jinja2.Template\<close> takes a string only.
\<close>

fun init_templates ::
  "jval \<Rightarrow> (key list \<times> Var list) list \<Rightarrow> Var list \<Rightarrow> (string \<times> key list) list
     \<Rightarrow> error + (Var list \<times> (string \<times> key list) list)" where
  "init_templates f [] flds tmpls = Inr (flds, tmpls)"
| "init_templates f ((p, vs) # rest) flds tmpls =
     (case get_value_by_keys f p of
        None \<Rightarrow> Inl (FieldNotFound p)
      | Some obj \<Rightarrow>
          if \<not> truthy obj then Inl (FieldNotFound p)
          else (case obj of
                  JStr raw \<Rightarrow> init_templates f rest (flds @ vs) (tmpls @ [(raw, p)])
                | _ \<Rightarrow> Inl (UpstreamError ''jinja2.Template'')))"

definition AIAction_init ::
  "string \<Rightarrow> Model \<Rightarrow> pydict \<Rightarrow> fn_object \<Rightarrow> (string \<times> key list) list \<Rightarrow> error + AIAction" where
  "AIAction_init nid m mparams f outs =
     (if \<not> set (map fst mparams) \<subseteq> set (map name (vars m)) then Inl ParamsNotSubset
      else case f of
          FnDict d \<Rightarrow>
            (case init_templates (JDict d) (extract_jinja_indices (JDict d)) [] [] of
               Inl e \<Rightarrow> Inl e
             | Inr (flds, tmpls) \<Rightarrow>
                 Inr \<lparr>node_id = nid, model = m, model_params = mparams, fn = f,
                      action_source = JTYPE, a_fields = flds, outputs = outs, templates = tmpls\<rparr>)
        | FnFunc g \<Rightarrow>
            Inr \<lparr>node_id = nid, model = m, model_params = mparams, fn = f,
                 action_source = FUNC, a_fields = func_to_vars g, outputs = outs, templates = []\<rparr>
        | FnOther x \<Rightarrow> Inl NotAFunction)"

text \<open>
  The first loop of \<^verbatim>\<open>__call__\<close>: the payload \<^verbatim>\<open>data\<close> loses the action's own fields, which
  go to \<^verbatim>\<open>_data\<close>; a required field that \<^verbatim>\<open>data\<close> does not hold raises.
\<close>

fun take_fields :: "string \<Rightarrow> Var list \<Rightarrow> pydict \<Rightarrow> pydict \<Rightarrow> error + (pydict \<times> pydict)" where
  "take_fields nid [] data own = Inr (data, own)"
| "take_fields nid (f # fs) data own =
     (if required f \<and> \<not> dict_has data (name f) then Inl (MissingField (name f) nid)
      else if dict_has data (name f)
        then take_fields nid fs (AList.delete (name f) data)
               (AList.update (name f) (dict_get data (name f) JNull) own)
        else take_fields nid fs data own)"

text \<open>
  Template mode: \<^verbatim>\<open>value = t.render(**_data); put_value_by_keys(fn_out, keys, value)\<close> for
  every template, on the deep copy. \<^verbatim>\<open>jinja2\<close> is a library: rendering is the parameter
  \<open>render raw data\<close>. The result of \<^verbatim>\<open>put_value_by_keys\<close> is not read: only its write counts.
\<close>

definition render_templates ::
  "(string \<Rightarrow> pydict \<Rightarrow> string) \<Rightarrow> (string \<times> key list) list \<Rightarrow> pydict \<Rightarrow> jval \<Rightarrow> jval" where
  "render_templates render tmpls own fn_out =
     fold (\<lambda>(raw, keys) acc.
             case put_value_by_keys acc keys (JStr (render raw own)) of None \<Rightarrow> acc | Some v \<Rightarrow> v)
       tmpls fn_out"

text \<open>How a step of \<^verbatim>\<open>__call__\<close> ends: it raises, it returns a pair, or the call goes on.\<close>

datatype 'a outcome = Raise error | Return "jval \<times> error option" | Continue 'a

text \<open>
  The request body \<^verbatim>\<open>fn_out\<close>. In function mode every exception of the \<^verbatim>\<open>try\<close> block is
  returned as \<^verbatim>\<open>("", e)\<close>.
\<close>

definition produce :: "(string \<Rightarrow> pydict \<Rightarrow> string) \<Rightarrow> AIAction \<Rightarrow> pydict \<Rightarrow> jval outcome" where
  "produce render a own =
     (case action_source a of
        FUNC \<Rightarrow>
          (case fn a of
             FnFunc g \<Rightarrow>
               (case run g own of
                  Inl e \<Rightarrow> Return (JStr [], Some e)
                | Inr fn_out \<Rightarrow>
                    (case fn_out of
                       JDict d \<Rightarrow> Continue fn_out
                     | _ \<Rightarrow> Return (JStr [], Some (NotADict (node_id a)))))
           | _ \<Rightarrow> Return (JStr [], Some (UpstreamError ''not callable'')))
      | JTYPE \<Rightarrow>
          (case fn a of
             FnDict d \<Rightarrow> Continue (render_templates render (templates a) own (JDict d))
           | _ \<Rightarrow> Raise (UpstreamError ''put_value_by_keys'')))"

text \<open>
  \<^verbatim>\<open>model_final_params = {**self.model_params}\<close>, then \<^verbatim>\<open>.update(data)\<close>, then
  \<^verbatim>\<open>.update(fn_out)\<close>; \<^verbatim>\<open>update\<close> takes a mapping.
\<close>

definition model_final_params :: "(string \<Rightarrow> pydict \<Rightarrow> string) \<Rightarrow> AIAction \<Rightarrow> pydict \<Rightarrow> pydict outcome" where
  "model_final_params render a data =
     (case take_fields (node_id a) (a_fields a) data [] of
        Inl e \<Rightarrow> Raise e
      | Inr (rest, own) \<Rightarrow>
          (case produce render a own of
             Raise e \<Rightarrow> Raise e
           | Return r \<Rightarrow> Return r
           | Continue fn_out \<Rightarrow>
               (case fn_out of
                  JDict d \<Rightarrow> Continue (dict_update (dict_update (model_params a) rest) d)
                | _ \<Rightarrow> Raise (UpstreamError ''dict.update''))))"

text \<open>
  \<^verbatim>\<open>out, err = self.model(model_final_params)\<close>, \<^verbatim>\<open>if err != None: return "", err\<close>,
  \<^verbatim>\<open>return out, err\<close>. The extraction of the declared outputs is commented out in the
  source. \<open>Inl\<close> is a raised exception, \<open>Inr\<close> the returned pair.
\<close>

definition AIAction_call ::
  "(string \<Rightarrow> pydict \<Rightarrow> string) \<Rightarrow> AIAction \<Rightarrow> pydict \<Rightarrow> error + (jval \<times> error option)" where
  "AIAction_call render a data =
     (case model_final_params render a data of
        Raise e \<Rightarrow> Inl e
      | Return r \<Rightarrow> Inr r
      | Continue ps \<Rightarrow>
          (case run (model_fn (model a)) ps of
             (out, err) \<Rightarrow> if err \<noteq> None then Inr (JStr [], err) else Inr (out, err)))"

section \<open>Nodes and the action registries\<close>

datatype node_type = PROGRAMATIC | AI | MODEL

datatype node_fn = ProgFn "(error + jval) callable" | AIFn AIAction

text \<open>
  An element of \<^verbatim>\<open>Node.outputs\<close>. The programmatic registry passes the list that
  \<^verbatim>\<open>func_to_return_vars\<close> returns; the AI registry without declared outputs passes a
  one-element list that holds this list (\<open>OutVars\<close>).
\<close>

datatype out_field = OutVar Var | OutVars "Var list"

record Node =
  Node_id :: string
  Node_type :: node_type
  Node_fn :: node_fn
  Node_description :: string
  Node_fields :: "Var list"
  Node_outputs :: "out_field list"

text \<open>
  \<^verbatim>\<open>ProgramaticActionsRegistry\<close> and \<^verbatim>\<open>AIActionsRegistry\<close> have the same attributes
  (\<^verbatim>\<open>nodes\<close>, \<^verbatim>\<open>counter\<close>, \<^verbatim>\<open>tags_to_nodes\<close>) and share one record type.
\<close>

record ActionsRegistry = Registry +
  nodes :: "(string \<times> Node) list"
  tags_to_nodes :: "(string \<times> string list) list"

type_synonym ProgramaticActionsRegistry = ActionsRegistry
type_synonym AIActionsRegistry = ActionsRegistry

definition ActionsRegistry_init :: ActionsRegistry where
  "ActionsRegistry_init = \<lparr>counter = [], nodes = [], tags_to_nodes = []\<rparr>"

text \<open>
  \<^verbatim>\<open>outputs\<close> defaults to \<^verbatim>\<open>None\<close>; \<^verbatim>\<open>not outputs\<close> holds for \<^verbatim>\<open>None\<close> and for the empty
  dict. \<^verbatim>\<open>{x: () for x in returns}\<close> keeps a repeated name once.
\<close>

definition ProgramaticActionsRegistry_register ::
  "ProgramaticActionsRegistry \<Rightarrow> (error + jval) callable \<Rightarrow> string \<Rightarrow> string \<Rightarrow> string list
     \<Rightarrow> (string \<times> key list) list option \<Rightarrow> string list
     \<Rightarrow> error + (Node \<times> ProgramaticActionsRegistry)" where
  "ProgramaticActionsRegistry_register reg f nid descr returns outs tgs =
     (if dict_has (nodes reg) nid then Inl (DuplicateId nid)
      else
        case (case outs of
                Some (x # xs) \<Rightarrow> Inr (x # xs)
              | _ \<Rightarrow> if returns = [] then Inl NoReturns
                     else Inr (dict_update [] (map (\<lambda>x. (x, [])) returns))) of
          Inl e \<Rightarrow> Inl e
        | Inr outs' \<Rightarrow>
            let ops = func_to_return_vars outs';
                node = \<lparr>Node_id = nid, Node_type = PROGRAMATIC, Node_fn = ProgFn f,
                        Node_description = descr, Node_fields = func_to_vars f,
                        Node_outputs = map OutVar ops\<rparr>
            in Inr (node, reg\<lparr>nodes := AList.update nid node (nodes reg),
                              tags_to_nodes := add_tags tgs nid (tags_to_nodes reg)\<rparr>))"

definition ActionsRegistry_get_tags :: "ActionsRegistry \<Rightarrow> string list" where
  "ActionsRegistry_get_tags reg = map fst (tags_to_nodes reg)"

definition ProgramaticActionsRegistry_get_nodes ::
  "(Node \<Rightarrow> jval) \<Rightarrow> ProgramaticActionsRegistry \<Rightarrow> string \<Rightarrow> pydict list" where
  "ProgramaticActionsRegistry_get_nodes to_dict reg tag = map (\<lambda>(k, v). [(k, to_dict v)]) (nodes reg)"

definition ProgramaticActionsRegistry_get ::
  "ProgramaticActionsRegistry \<Rightarrow> string \<Rightarrow> (error + Node) \<times> ProgramaticActionsRegistry" where
  "ProgramaticActionsRegistry_get reg nid =
     (let reg' = reg\<lparr>counter := bump (counter reg) nid\<rparr>
      in case map_of (nodes reg') nid of
           None \<Rightarrow> (Inl (NotFound nid), reg')
         | Some out \<Rightarrow> (Inr out, reg'))"

definition get_count_for_nodes :: "ActionsRegistry \<Rightarrow> string \<Rightarrow> nat" where
  "get_count_for_nodes reg nid = dict_get (counter reg) nid 0"

text \<open>
  \<^verbatim>\<open>AIActionsRegistry.register\<close> reads the global \<^verbatim>\<open>model_registry\<close>, whose \<^verbatim>\<open>get\<close> counts
  the lookup: the model registry is part of the state. The method has no test of
  \<^verbatim>\<open>node_id in self.nodes\<close>. \<^verbatim>\<open>Var(type="any", name=k, _loc=loc)\<close> leaves \<^verbatim>\<open>required\<close> at its
  default.
\<close>

definition AIActionsRegistry_register ::
  "ModelRegistry \<Rightarrow> AIActionsRegistry \<Rightarrow> string \<Rightarrow> string \<Rightarrow> pydict \<Rightarrow> fn_object
     \<Rightarrow> (string \<times> key list) list \<Rightarrow> string \<Rightarrow> string list
     \<Rightarrow> (error + Node) \<times> ModelRegistry \<times> AIActionsRegistry" where
  "AIActionsRegistry_register mreg reg nid mid mparams f outs descr tgs =
     (case ModelRegistry_get mreg mid of
        (Inl e, mreg') \<Rightarrow> (Inl e, mreg', reg)
      | (Inr m, mreg') \<Rightarrow>
          (case AIAction_init nid m mparams f outs of
             Inl e \<Rightarrow> (Inl e, mreg', reg)
           | Inr ai_action \<Rightarrow>
               let output_field =
                     (if outs = []
                      then [OutVars (func_to_return_vars [(''model_output'', [])])]
                      else map (\<lambda>(k, l). OutVar \<lparr>name = k, required = False, vtype = ''any'', loc = l\<rparr>) outs);
                   node = \<lparr>Node_id = nid, Node_type = AI, Node_fn = AIFn ai_action,
                           Node_description = descr,
                           Node_fields = a_fields ai_action @ vars m,
                           Node_outputs = output_field\<rparr>
               in (Inr node, mreg',
                   reg\<lparr>nodes := AList.update nid node (nodes reg),
                       tags_to_nodes := add_tags tgs nid (tags_to_nodes reg)\<rparr>)))"

definition AIActionsRegistry_get_nodes ::
  "(Node \<Rightarrow> jval) \<Rightarrow> AIActionsRegistry \<Rightarrow> string \<Rightarrow> pydict list" where
  "AIActionsRegistry_get_nodes to_dict reg tag = map (\<lambda>(k, v). [(k, to_dict v)]) (nodes reg)"

definition AIActionsRegistry_get ::
  "AIActionsRegistry \<Rightarrow> string \<Rightarrow> (error + Node) \<times> AIActionsRegistry" where
  "AIActionsRegistry_get reg nid =
     (let reg' = reg\<lparr>counter := bump (counter reg) nid\<rparr>
      in case map_of (nodes reg') nid of
           None \<Rightarrow> (Inl (NotFound nid), reg')
         | Some out \<Rightarrow> (Inr out, reg'))"

section \<open>Loading a chain definition\<close>

text \<open>
  \<^verbatim>\<open>chainfury/client.py\<close>, \<^verbatim>\<open>get_chain_from_id\<close>. The types \<^verbatim>\<open>Dag\<close>, \<^verbatim>\<open>Edge\<close> and \<^verbatim>\<open>Chain\<close>
  are declared outside the sources; the records hold the attributes the function reads and
  the arguments it passes. An attribute that may be \<^verbatim>\<open>None\<close> is an option.
\<close>

record DagNode =
  dn_id :: string
  cf_id :: "string option"
  cf_data :: "jval option"

record DagEdge =
  source :: "string option"
  target :: "string option"
  sourceHandle :: "string option"
  targetHandle :: "string option"

record Dag =
  dag_nodes :: "DagNode list"
  dag_edges :: "DagEdge list"
  sample :: "pydict option"
  main_in :: "string option"
  main_out :: "string option"

record Edge =
  src_node_id :: string
  trg_node_id :: string
  connection :: "string \<times> string"

record Chain =
  chain_nodes :: "Node list"
  chain_edges :: "Edge list"
  chain_sample :: pydict
  chain_main_in :: string
  chain_main_out :: string

text \<open>Truthiness of an optional string or dict (\<^verbatim>\<open>if not dag.sample\<close>).\<close>

definition falsy :: "'a list option \<Rightarrow> bool" where
  "falsy x = (x = None \<or> x = Some [])"

definition text_of :: "'a list option \<Rightarrow> 'a list" where
  "text_of x = (case x of None \<Rightarrow> [] | Some s \<Rightarrow> s)"

text \<open>
  The HTTP proxy is a collaborator: \<open>chatbot\<close> answers \<^verbatim>\<open>stub.chatbot.u(id)()\<close> with the
  error text or the \<^verbatim>\<open>dag\<close> of the chain, \<open>actions\<close> answers
  \<^verbatim>\<open>stub.fury.actions.u(cf_id)()\<close> with a body and the error flag.
\<close>

record Remote =
  chatbot :: "string \<Rightarrow> string + Dag"
  actions :: "string \<Rightarrow> jval \<times> bool"

datatype remote_call = GetChatbot string | GetAction string

text \<open>
  What the function can change: the two global registries (a lookup counts) and the
  requests sent to the server, in order.
\<close>

record Env =
  ai_actions_registry :: AIActionsRegistry
  programatic_actions_registry :: ProgramaticActionsRegistry
  remote_calls :: "remote_call list"

text \<open>
  \<^verbatim>\<open>cf_action.id = node.id\<close> writes into the object that was found: a node of a registry or
  of \<^verbatim>\<open>actions_map\<close> is shared with it. The list \<^verbatim>\<open>nodes\<close> therefore holds references, read
  at the end.
\<close>

datatype node_ref = Fresh Node | AIRef string | ProgRef string | RemoteRef string

definition set_id :: "string \<Rightarrow> string \<Rightarrow> (string \<times> Node) list \<Rightarrow> (string \<times> Node) list" where
  "set_id k new_id ns =
     (case map_of ns k of None \<Rightarrow> ns | Some n \<Rightarrow> AList.update k (n\<lparr>Node_id := new_id\<rparr>) ns)"

text \<open>
  One round of the loop over \<^verbatim>\<open>dag.nodes\<close>, after the test of \<^verbatim>\<open>cf_id\<close> and \<^verbatim>\<open>cf_data\<close>:
  inline body, then \<^verbatim>\<open>actions_map\<close>, then the AI registry, then the programmatic
  registry, then the server. \<^verbatim>\<open>Node.from_dict\<close> is the parameter \<open>from_dict\<close>.
\<close>

definition resolve_node ::
  "Remote \<Rightarrow> (jval \<Rightarrow> error + Node) \<Rightarrow> DagNode \<Rightarrow> Env \<Rightarrow> (string \<times> Node) list
     \<Rightarrow> (error + node_ref \<times> (string \<times> Node) list) \<times> Env" where
  "resolve_node remote from_dict n env amap =
     (case (case cf_data n of Some d \<Rightarrow> if truthy d then Some d else None | None \<Rightarrow> None) of
        Some d \<Rightarrow>
          (case from_dict d of
             Inl e \<Rightarrow> (Inl e, env)
           | Inr nd \<Rightarrow> (Inr (Fresh (nd\<lparr>Node_id := dn_id n\<rparr>), amap), env))
      | None \<Rightarrow>
          let c = text_of (cf_id n) in
          if dict_has amap c then (Inr (RemoteRef c, set_id c (dn_id n) amap), env)
          else
            (case AIActionsRegistry_get (ai_actions_registry env) c of
              (Inr nd, ai') \<Rightarrow>
                (Inr (AIRef c, amap), env\<lparr>ai_actions_registry := ai'\<lparr>nodes := set_id c (dn_id n) (nodes ai')\<rparr>\<rparr>)
            | (Inl e1, ai') \<Rightarrow>
                (case ProgramaticActionsRegistry_get (programatic_actions_registry env) c of
                   (Inr nd, pr') \<Rightarrow>
                     (Inr (ProgRef c, amap),
                      env\<lparr>ai_actions_registry := ai',
                          programatic_actions_registry := pr'\<lparr>nodes := set_id c (dn_id n) (nodes pr')\<rparr>\<rparr>)
                 | (Inl e2, pr') \<Rightarrow>
                     let env' = env\<lparr>ai_actions_registry := ai', programatic_actions_registry := pr',
                                    remote_calls := remote_calls env @ [GetAction c]\<rparr>
                     in (case actions remote c of
                           (action, err) \<Rightarrow>
                             if err then (Inl (ChainError ''Action not found''), env')
                             else (case from_dict action of
                                     Inl e \<Rightarrow> (Inl (ChainError ''Action not found''), env')
                                   | Inr nd \<Rightarrow>
                                       (Inr (RemoteRef c, AList.update c (nd\<lparr>Node_id := dn_id n\<rparr>) amap),
                                        env'))))))"

fun resolve_nodes ::
  "Remote \<Rightarrow> (jval \<Rightarrow> error + Node) \<Rightarrow> DagNode list \<Rightarrow> Env \<Rightarrow> (string \<times> Node) list \<Rightarrow> node_ref list
     \<Rightarrow> (error + node_ref list \<times> (string \<times> Node) list) \<times> Env" where
  "resolve_nodes remote from_dict [] env amap refs = (Inr (refs, amap), env)"
| "resolve_nodes remote from_dict (n # ns) env amap refs =
     (if falsy (cf_id n) \<and> (case cf_data n of None \<Rightarrow> True | Some d \<Rightarrow> \<not> truthy d)
      then (Inl (ChainError ''Action has no cf_id or cf_data''), env)
      else case resolve_node remote from_dict n env amap of
             (Inl e, env') \<Rightarrow> (Inl e, env')
           | (Inr (r, amap'), env') \<Rightarrow> resolve_nodes remote from_dict ns env' amap' (refs @ [r]))"

definition deref :: "Env \<Rightarrow> (string \<times> Node) list \<Rightarrow> node_ref \<Rightarrow> Node option" where
  "deref env amap r =
     (case r of
        Fresh nd \<Rightarrow> Some nd
      | AIRef c \<Rightarrow> map_of (nodes (ai_actions_registry env)) c
      | ProgRef c \<Rightarrow> map_of (nodes (programatic_actions_registry env)) c
      | RemoteRef c \<Rightarrow> map_of amap c)"

text \<open>
  Modelled from the spec: \<^verbatim>\<open>Edge.from_dict\<close> of \<^verbatim>\<open>chainfury.base\<close> is not among the sources.
  The spec gives an edge as (source node id, target node id, (source output name, target
  input name)), carried on the wire as \<^verbatim>\<open>source\<close>, \<^verbatim>\<open>target\<close>, \<^verbatim>\<open>sourceHandle\<close>,
  \<^verbatim>\<open>targetHandle\<close>.
\<close>

definition Edge_from_dict :: "DagEdge \<Rightarrow> Edge" where
  "Edge_from_dict e =
     \<lparr>src_node_id = text_of (source e), trg_node_id = text_of (target e),
      connection = (text_of (sourceHandle e), text_of (targetHandle e))\<rparr>"

fun make_edges :: "DagEdge list \<Rightarrow> Edge list \<Rightarrow> error + Edge list" where
  "make_edges [] acc = Inr acc"
| "make_edges (e # es) acc =
     (if falsy (source e) \<or> falsy (target e) \<or> falsy (sourceHandle e) \<or> falsy (targetHandle e)
      then Inl (ChainError ''Invalid edge'')
      else make_edges es (acc @ [Edge_from_dict e]))"

text \<open>
  \<^verbatim>\<open>get_client()\<close> raises without a URL or a token: \<open>client\<close> is its outcome. The request for
  the chain is logged, then the three tests of the dag come before the loop over the nodes.
\<close>

definition get_chain_from_id ::
  "(error + Remote) \<Rightarrow> (jval \<Rightarrow> error + Node) \<Rightarrow> Env \<Rightarrow> string \<Rightarrow> (error + Chain) \<times> Env" where
  "get_chain_from_id client from_dict env ident =
     (case client of
        Inl e \<Rightarrow> (Inl e, env)
      | Inr remote \<Rightarrow>
          let env1 = env\<lparr>remote_calls := remote_calls env @ [GetChatbot ident]\<rparr> in
          (case chatbot remote ident of
             Inl txt \<Rightarrow> (Inl (ChainError ''Could not get chain''), env1)
           | Inr dag \<Rightarrow>
               if falsy (sample dag) then (Inl (ChainError ''Dag has no sample''), env1)
               else if falsy (main_in dag) then (Inl (ChainError ''Dag has no main_in''), env1)
               else if falsy (main_out dag) then (Inl (ChainError ''Dag has no main_out''), env1)
               else
                 (case resolve_nodes remote from_dict (dag_nodes dag) env1 [] [] of
                    (Inl e, env2) \<Rightarrow> (Inl e, env2)
                  | (Inr (refs, amap), env2) \<Rightarrow>
                      (case make_edges (dag_edges dag) [] of
                         Inl e \<Rightarrow> (Inl e, env2)
                       | Inr edges \<Rightarrow>
                           (Inr \<lparr>chain_nodes = List.map_filter (deref env2 amap) refs,
                                 chain_edges = edges,
                                 chain_sample = text_of (sample dag),
                                 chain_main_in = text_of (main_in dag),
                                 chain_main_out = text_of (main_out dag)\<rparr>, env2)))))"

text \<open>A Python dict holds each key once.\<close>

definition is_dict :: "(string \<times> 'v) list \<Rightarrow> bool" where
  "is_dict d = distinct (map fst d)"

section \<open>Example objects\<close>

text \<open>
  The theorems hold for every renderer. The examples use a small one: it replaces
  \<^verbatim>\<open>{{name}}\<close> by the string the payload holds for \<open>name\<close> and keeps the other text.
\<close>

fun render_step :: "pydict \<Rightarrow> char \<Rightarrow> scan_mode \<times> string \<Rightarrow> scan_mode \<times> string" where
  "render_step env c (Text, out) = (if c = CHR ''{'' then (Open1, out) else (Text, out @ [c]))"
| "render_step env c (Open1, out) = (if c = CHR ''{'' then (Inside [], out) else (Text, out @ [CHR ''{'', c]))"
| "render_step env c (Inside b, out) = (if c = CHR ''}'' then (Close1 b, out) else (Inside (b @ [c]), out))"
| "render_step env c (Close1 b, out) =
     (if c = CHR ''}''
      then (Text, out @ (case map_of env (strip b) of Some (JStr s) \<Rightarrow> s | _ \<Rightarrow> []))
      else (Inside (b @ [CHR ''}'', c]), out))"

definition render_simple :: "string \<Rightarrow> pydict \<Rightarrow> string" where
  "render_simple raw env = snd (fold (render_step env) raw (Text, []))"

text \<open>
  A model \<^verbatim>\<open>echo\<close> that returns its parameters, an AI action \<^verbatim>\<open>hello\<close> with the template
  \<^verbatim>\<open>{"say": "{{text}}"}\<close>, a plain function \<^verbatim>\<open>upper\<close>, and the registries that hold them.
\<close>

definition text_var :: Var where
  "text_var = \<lparr>name = ''text'', required = True, vtype = ''string'', loc = []\<rparr>"

definition say_var :: Var where
  "say_var = \<lparr>name = ''say'', required = False, vtype = ''string'', loc = []\<rparr>"

definition echo_fn :: "(jval \<times> error option) callable" where
  "echo_fn = \<lparr>params = [say_var], run = (\<lambda>d. (JDict d, None))\<rparr>"

definition echo_model :: Model where
  "echo_model = \<lparr>collection_name = ''demo'', model_id = ''echo'', model_fn = echo_fn,
                 model_description = ''echoes its parameters'', vars = [say_var], tags = []\<rparr>"

definition echo_registry :: ModelRegistry where
  "echo_registry = \<lparr>counter = [], models = [(''echo'', echo_model)], tags_to_models = []\<rparr>"

definition hello_action :: AIAction where
  "hello_action =
     \<lparr>node_id = ''hello'', model = echo_model, model_params = [],
      fn = FnDict [(''say'', JStr ''{{text}}'')], action_source = JTYPE,
      a_fields = [text_var], outputs = [], templates = [(''{{text}}'', [K ''say''])]\<rparr>"

definition hello_node :: Node where
  "hello_node =
     \<lparr>Node_id = ''hello'', Node_type = AI, Node_fn = AIFn hello_action,
      Node_description = ''first'', Node_fields = [text_var, say_var],
      Node_outputs = [OutVars [\<lparr>name = ''model_output'', required = False, vtype = ''any'', loc = []\<rparr>]]\<rparr>"

definition hello_registry :: AIActionsRegistry where
  "hello_registry = \<lparr>counter = [], nodes = [(''hello'', hello_node)], tags_to_nodes = [(''demo'', [''hello''])]\<rparr>"

definition upper_fn :: "(error + jval) callable" where
  "upper_fn = \<lparr>params = [text_var], run = (\<lambda>d. Inr (JDict d))\<rparr>"

definition upper_node :: Node where
  "upper_node =
     \<lparr>Node_id = ''upper'', Node_type = PROGRAMATIC, Node_fn = ProgFn upper_fn,
      Node_description = ''plain function'', Node_fields = [text_var],
      Node_outputs = [OutVar \<lparr>name = ''out'', required = False, vtype = ''any'', loc = []\<rparr>]\<rparr>"

definition upper_registry :: ProgramaticActionsRegistry where
  "upper_registry = \<lparr>counter = [], nodes = [(''upper'', upper_node)], tags_to_nodes = []\<rparr>"

text \<open>
  A model \<^verbatim>\<open>broken\<close> that returns a traceback text and an error, and the action \<^verbatim>\<open>hello\<close>
  bound to it.
\<close>

definition broken_fn :: "(jval \<times> error option) callable" where
  "broken_fn = \<lparr>params = [say_var], run = (\<lambda>d. (JStr ''Traceback'', Some (UpstreamError ''boom'')))\<rparr>"

definition broken_model :: Model where
  "broken_model = \<lparr>collection_name = ''demo'', model_id = ''broken'', model_fn = broken_fn,
                   model_description = ''always fails'', vars = [say_var], tags = []\<rparr>"

definition broken_action :: AIAction where
  "broken_action = hello_action\<lparr>model := broken_model\<rparr>"

text \<open>
  A chat model with a nested answer, and an action that declares the output \<^verbatim>\<open>chat_reply\<close> at
  \<^verbatim>\<open>("choices", 0, "message", "content")\<close>, as the actions of \<^verbatim>\<open>stories/fury.py\<close> do.
\<close>

definition chat_answer :: jval where
  "chat_answer = JDict [(''choices'', JList [JDict [(''message'', JDict [(''content'', JStr ''hello'')])]])]"

definition messages_var :: Var where
  "messages_var = \<lparr>name = ''messages'', required = True, vtype = ''array'', loc = []\<rparr>"

definition model_var :: Var where
  "model_var = \<lparr>name = ''model'', required = False, vtype = ''string'', loc = []\<rparr>"

definition chat_fn :: "(jval \<times> error option) callable" where
  "chat_fn = \<lparr>params = [model_var, messages_var], run = (\<lambda>d. (chat_answer, None))\<rparr>"

definition chat_model :: Model where
  "chat_model = \<lparr>collection_name = ''demo'', model_id = ''chat'', model_fn = chat_fn,
                 model_description = ''chat'', vars = [model_var, messages_var], tags = []\<rparr>"

definition chat_registry :: ModelRegistry where
  "chat_registry = \<lparr>counter = [], models = [(''chat'', chat_model)], tags_to_models = []\<rparr>"

definition chat_template :: pydict where
  "chat_template = [(''messages'', JList [JDict [(''role'', JStr ''user''), (''content'', JStr ''Say {{ text }}'')]])]"

definition chat_outputs :: "(string \<times> key list) list" where
  "chat_outputs = [(''chat_reply'', [K ''choices'', I 0, K ''message'', K ''content''])]"

definition chat_action :: AIAction where
  "chat_action =
     \<lparr>node_id = ''greet'', model = chat_model, model_params = [(''model'', JStr ''gpt'')],
      fn = FnDict chat_template, action_source = JTYPE,
      a_fields = [text_var], outputs = chat_outputs,
      templates = [(''Say {{ text }}'', [K ''messages'', I 0, K ''content''])]\<rparr>"

definition chat_node :: Node where
  "chat_node =
     \<lparr>Node_id = ''greet'', Node_type = AI, Node_fn = AIFn chat_action,
      Node_description = ''greets'', Node_fields = [text_var, model_var, messages_var],
      Node_outputs = [OutVar \<lparr>name = ''chat_reply'', required = False, vtype = ''any'',
                              loc = [K ''choices'', I 0, K ''message'', K ''content'']\<rparr>]\<rparr>"

text \<open>
  A server with two chains over one node that refers to the action \<^verbatim>\<open>hello\<close> by its id:
  \<^verbatim>\<open>c1\<close> has no \<^verbatim>\<open>main_out\<close>, \<^verbatim>\<open>c2\<close> is complete.
\<close>

definition demo_dag :: Dag where
  "demo_dag =
     \<lparr>dag_nodes = [\<lparr>dn_id = ''n1'', cf_id = Some ''hello'', cf_data = None\<rparr>],
      dag_edges = [],
      sample = Some [(''n1/text'', JStr ''hi'')],
      main_in = Some ''n1/text'',
      main_out = None\<rparr>"

definition demo_remote :: Remote where
  "demo_remote =
     \<lparr>chatbot = (\<lambda>i. if i = ''c1'' then Inr demo_dag
                     else if i = ''c2'' then Inr (demo_dag\<lparr>main_out := Some ''n1/model_output''\<rparr>)
                     else Inl ''no such chain''),
      actions = (\<lambda>c. (JStr ''no such action'', True))\<rparr>"

definition demo_env :: Env where
  "demo_env =
     \<lparr>ai_actions_registry = hello_registry, programatic_actions_registry = upper_registry,
      remote_calls = []\<rparr>"

text \<open>No inline node body and no answer of the server is read in the examples.\<close>

definition demo_from_dict :: "jval \<Rightarrow> error + Node" where
  "demo_from_dict v = Inl (UpstreamError ''Node.from_dict'')"

text \<open>
  An action whose template names the variable \<^verbatim>\<open>x\<close> in two leaves:
  \<^verbatim>\<open>{"a": "{{x}}", "b": "{{x}}"}\<close>.
\<close>

definition x_var :: Var where
  "x_var = \<lparr>name = ''x'', required = True, vtype = ''string'', loc = []\<rparr>"

definition twice_template :: pydict where
  "twice_template = [(''a'', JStr ''{{x}}''), (''b'', JStr ''{{x}}'')]"

definition twice_action :: AIAction where
  "twice_action =
     \<lparr>node_id = ''twice'', model = echo_model, model_params = [],
      fn = FnDict twice_template, action_source = JTYPE,
      a_fields = [x_var, x_var], outputs = [],
      templates = [(''{{x}}'', [K ''a'']), (''{{x}}'', [K ''b''])]\<rparr>"

section \<open>The rendered template, as the spec words it\<close>

text \<open>
  Every dict inside a JSON value holds each key once.
\<close>

fun well_formed :: "jval \<Rightarrow> bool"
  and well_formed_list :: "jval list \<Rightarrow> bool"
  and well_formed_dict :: "(string \<times> jval) list \<Rightarrow> bool" where
  "well_formed (JList xs) = well_formed_list xs"
| "well_formed (JDict kvs) = (distinct (map fst kvs) \<and> well_formed_dict kvs)"
| "well_formed JNull = True"
| "well_formed (JBool b) = True"
| "well_formed (JNum n) = True"
| "well_formed (JStr s) = True"
| "well_formed_list [] = True"
| "well_formed_list (x # xs) = (well_formed x \<and> well_formed_list xs)"
| "well_formed_dict [] = True"
| "well_formed_dict ((k, v) # kvs) = (well_formed v \<and> well_formed_dict kvs)"

text \<open>
  The spec: "a request identical to the template with placeholders replaced": the same
  structure, where each leaf that holds a placeholder is the string \<open>r\<close> makes of it.
\<close>

fun rendered_template :: "(string \<Rightarrow> string) \<Rightarrow> jval \<Rightarrow> jval"
  and rendered_list :: "(string \<Rightarrow> string) \<Rightarrow> jval list \<Rightarrow> jval list"
  and rendered_dict :: "(string \<Rightarrow> string) \<Rightarrow> (string \<times> jval) list \<Rightarrow> (string \<times> jval) list" where
  "rendered_template r (JStr s) = (if placeholders s \<noteq> [] then JStr (r s) else JStr s)"
| "rendered_template r (JList xs) = JList (rendered_list r xs)"
| "rendered_template r (JDict kvs) = JDict (rendered_dict r kvs)"
| "rendered_template r JNull = JNull"
| "rendered_template r (JBool b) = JBool b"
| "rendered_template r (JNum n) = JNum n"
| "rendered_list r [] = []"
| "rendered_list r (x # xs) = rendered_template r x # rendered_list r xs"
| "rendered_dict r [] = []"
| "rendered_dict r ((k, v) # kvs) = (k, rendered_template r v) # rendered_dict r kvs"

text \<open>
  The placeholder leaves of a value with their paths, in the order of
  \<open>extract_jinja_indices\<close>: what \<^verbatim>\<open>self.templates\<close> holds for a template.
\<close>

fun leaves :: "jval \<Rightarrow> (string \<times> key list) list"
  and leaves_list :: "nat \<Rightarrow> jval list \<Rightarrow> (string \<times> key list) list"
  and leaves_dict :: "(string \<times> jval) list \<Rightarrow> (string \<times> key list) list" where
  "leaves (JStr s) = (if placeholders s \<noteq> [] then [(s, [])] else [])"
| "leaves (JList xs) = leaves_list 0 xs"
| "leaves (JDict kvs) = leaves_dict kvs"
| "leaves JNull = []"
| "leaves (JBool b) = []"
| "leaves (JNum n) = []"
| "leaves_list i [] = []"
| "leaves_list i (x # xs) = map (\<lambda>(raw, p). (raw, I (int i) # p)) (leaves x) @ leaves_list (Suc i) xs"
| "leaves_dict [] = []"
| "leaves_dict ((k, v) # kvs) = map (\<lambda>(raw, p). (raw, K k # p)) (leaves v) @ leaves_dict kvs"

text \<open>
  The loop of \<open>render_templates\<close> seen from inside a child of the template, where the empty
  path names the child itself.
\<close>

definition write_at :: "jval \<Rightarrow> key list \<Rightarrow> jval \<Rightarrow> jval" where
  "write_at v p x =
     (if p = [] then x else case put_value_by_keys v p x of None \<Rightarrow> v | Some w \<Rightarrow> w)"

definition apply_templates :: "(string \<Rightarrow> string) \<Rightarrow> (string \<times> key list) list \<Rightarrow> jval \<Rightarrow> jval" where
  "apply_templates r tmpls v = fold (\<lambda>(raw, keys) acc. write_at acc keys (JStr (r raw))) tmpls v"

section \<open>Properties of the registries\<close>

lemma dict_get_bump_same: "dict_get (bump c k) k 0 = dict_get c k 0 + 1"
  by (simp add: bump_def dict_get_def update_conv')

lemma dict_has_map_of: "dict_has d k \<longleftrightarrow> map_of d k \<noteq> None"
  by (simp add: dict_has_def map_of_eq_None_iff)

lemma echo_registered:
  "ModelRegistry_register ModelRegistry_init echo_fn ''demo'' ''echo'' ''echoes its parameters'' [] = Inr echo_registry"
  by (simp add: ModelRegistry_register_def ModelRegistry_init_def echo_registry_def echo_model_def
      dict_has_def add_tags_def func_to_vars_def echo_fn_def)

lemma upper_registered:
  "ProgramaticActionsRegistry_register ActionsRegistry_init upper_fn ''upper'' ''plain function'' [''out''] None []
     = Inr (upper_node, upper_registry)"
  by (simp add: ProgramaticActionsRegistry_register_def ActionsRegistry_init_def upper_registry_def
      upper_node_def dict_has_def add_tags_def func_to_vars_def upper_fn_def func_to_return_vars_def
      dict_update_def Let_def)

lemma hello_init:
  "AIAction_init ''hello'' echo_model [] (FnDict [(''say'', JStr ''{{text}}'')]) [] = Inr hello_action"
  by (simp add: AIAction_init_def hello_action_def placeholders_def jtype_to_vars_def strip_def text_var_def)

lemma hello_registered:
  "AIActionsRegistry_register echo_registry ActionsRegistry_init ''hello'' ''echo'' []
      (FnDict [(''say'', JStr ''{{text}}'')]) [] ''first'' [''demo'']
     = (Inr hello_node, echo_registry\<lparr>counter := [(''echo'', 1)]\<rparr>, hello_registry)"
proof -
  have f: "a_fields hello_action = [text_var]" "vars echo_model = [say_var]"
    by (simp_all add: hello_action_def echo_model_def)
  show ?thesis
    by (simp add: AIActionsRegistry_register_def ModelRegistry_get_def bump_def dict_get_def hello_init
        echo_registry_def hello_node_def hello_registry_def ActionsRegistry_init_def add_tags_def
        func_to_return_vars_def Let_def f)
qed

text \<open>
  C7. For every registry and every registered id, two successive calls of \<^verbatim>\<open>get\<close> with that
  id return the same entity, and each call adds exactly 1 to the usage counter of the id
  (after the two calls the counter is the old counter plus 2). \<^verbatim>\<open>get\<close> with an absent id
  fails with the NotFound error.
\<close>

theorem get_twice:
  "(map_of (models mreg) i = Some m \<longrightarrow>
      fst (ModelRegistry_get mreg i) = Inr m
    \<and> fst (ModelRegistry_get (snd (ModelRegistry_get mreg i)) i) = Inr m
    \<and> get_count_for_model (snd (ModelRegistry_get mreg i)) i = get_count_for_model mreg i + 1
    \<and> get_count_for_model (snd (ModelRegistry_get (snd (ModelRegistry_get mreg i)) i)) i
        = get_count_for_model mreg i + 2)
   \<and> (\<not> dict_has (models mreg) i' \<longrightarrow> fst (ModelRegistry_get mreg i') = Inl (NotFound i'))
   \<and> (map_of (nodes preg) j = Some n \<longrightarrow>
      fst (ProgramaticActionsRegistry_get preg j) = Inr n
    \<and> fst (ProgramaticActionsRegistry_get (snd (ProgramaticActionsRegistry_get preg j)) j) = Inr n
    \<and> get_count_for_nodes (snd (ProgramaticActionsRegistry_get preg j)) j = get_count_for_nodes preg j + 1
    \<and> get_count_for_nodes (snd (ProgramaticActionsRegistry_get (snd (ProgramaticActionsRegistry_get preg j)) j)) j
        = get_count_for_nodes preg j + 2)
   \<and> (\<not> dict_has (nodes preg) j' \<longrightarrow> fst (ProgramaticActionsRegistry_get preg j') = Inl (NotFound j'))
   \<and> (map_of (nodes areg) k = Some a \<longrightarrow>
      fst (AIActionsRegistry_get areg k) = Inr a
    \<and> fst (AIActionsRegistry_get (snd (AIActionsRegistry_get areg k)) k) = Inr a
    \<and> get_count_for_nodes (snd (AIActionsRegistry_get areg k)) k = get_count_for_nodes areg k + 1
    \<and> get_count_for_nodes (snd (AIActionsRegistry_get (snd (AIActionsRegistry_get areg k)) k)) k
        = get_count_for_nodes areg k + 2)
   \<and> (\<not> dict_has (nodes areg) k' \<longrightarrow> fst (AIActionsRegistry_get areg k') = Inl (NotFound k'))"
  by (simp add: ModelRegistry_get_def ProgramaticActionsRegistry_get_def AIActionsRegistry_get_def
      get_count_for_model_def get_count_for_nodes_def dict_get_bump_same dict_has_map_of Let_def
      split: option.splits)

theorem get_twice_witness:
  "map_of (models echo_registry) ''echo'' = Some echo_model
   \<and> \<not> dict_has (models echo_registry) ''gpt''
   \<and> map_of (nodes upper_registry) ''upper'' = Some upper_node
   \<and> \<not> dict_has (nodes upper_registry) ''lower''
   \<and> map_of (nodes hello_registry) ''hello'' = Some hello_node
   \<and> \<not> dict_has (nodes hello_registry) ''bye''
   \<and> fst (ModelRegistry_get (snd (ModelRegistry_get echo_registry ''echo'')) ''echo'') = Inr echo_model
   \<and> get_count_for_model (snd (ModelRegistry_get (snd (ModelRegistry_get echo_registry ''echo'')) ''echo'')) ''echo'' = 2
   \<and> fst (ModelRegistry_get echo_registry ''gpt'') = Inl (NotFound ''gpt'')
   \<and> fst (ProgramaticActionsRegistry_get (snd (ProgramaticActionsRegistry_get upper_registry ''upper'')) ''upper'') = Inr upper_node
   \<and> get_count_for_nodes (snd (ProgramaticActionsRegistry_get (snd (ProgramaticActionsRegistry_get upper_registry ''upper'')) ''upper'')) ''upper'' = 2
   \<and> fst (ProgramaticActionsRegistry_get upper_registry ''lower'') = Inl (NotFound ''lower'')
   \<and> fst (AIActionsRegistry_get (snd (AIActionsRegistry_get hello_registry ''hello'')) ''hello'') = Inr hello_node
   \<and> get_count_for_nodes (snd (AIActionsRegistry_get (snd (AIActionsRegistry_get hello_registry ''hello'')) ''hello'')) ''hello'' = 2
   \<and> fst (AIActionsRegistry_get hello_registry ''bye'') = Inl (NotFound ''bye'')"
proof -
  have h1: "map_of (models echo_registry) ''echo'' = Some echo_model"
    by (simp add: echo_registry_def)
  have h2: "\<not> dict_has (models echo_registry) ''gpt''"
    by (simp add: echo_registry_def dict_has_def)
  have h3: "map_of (nodes upper_registry) ''upper'' = Some upper_node"
    by (simp add: upper_registry_def)
  have h4: "\<not> dict_has (nodes upper_registry) ''lower''"
    by (simp add: upper_registry_def dict_has_def)
  have h5: "map_of (nodes hello_registry) ''hello'' = Some hello_node"
    by (simp add: hello_registry_def)
  have h6: "\<not> dict_has (nodes hello_registry) ''bye''"
    by (simp add: hello_registry_def dict_has_def)
  have c0: "get_count_for_model echo_registry ''echo'' = 0"
    "get_count_for_nodes upper_registry ''upper'' = 0"
    "get_count_for_nodes hello_registry ''hello'' = 0"
    by (simp_all add: get_count_for_model_def get_count_for_nodes_def dict_get_def
        echo_registry_def upper_registry_def hello_registry_def)
  show ?thesis
    using get_twice [of echo_registry "''echo''" echo_model "''gpt''"
        upper_registry "''upper''" upper_node "''lower''"
        hello_registry "''hello''" hello_node "''bye''"] h1 h2 h3 h4 h5 h6 c0
    by simp
qed

lemma dict_get_bump_other: "k' \<noteq> k \<Longrightarrow> dict_get (bump c k) k' 0 = dict_get c k' 0"
  by (simp add: bump_def dict_get_def update_conv')

text \<open>
  C10. For every registry and every id that is not registered, \<^verbatim>\<open>get\<close> raises the NotFound
  error and still adds 1 to the usage counter of that id: the counter counts the lookups, and
  the registry after the failed lookup is not the registry before it.
\<close>

theorem get_absent_counts:
  "(\<not> dict_has (models mreg) i \<longrightarrow>
      fst (ModelRegistry_get mreg i) = Inl (NotFound i)
    \<and> get_count_for_model (snd (ModelRegistry_get mreg i)) i = get_count_for_model mreg i + 1
    \<and> snd (ModelRegistry_get mreg i) \<noteq> mreg)
   \<and> (\<not> dict_has (nodes preg) j \<longrightarrow>
      fst (ProgramaticActionsRegistry_get preg j) = Inl (NotFound j)
    \<and> get_count_for_nodes (snd (ProgramaticActionsRegistry_get preg j)) j = get_count_for_nodes preg j + 1
    \<and> snd (ProgramaticActionsRegistry_get preg j) \<noteq> preg)
   \<and> (\<not> dict_has (nodes areg) k \<longrightarrow>
      fst (AIActionsRegistry_get areg k) = Inl (NotFound k)
    \<and> get_count_for_nodes (snd (AIActionsRegistry_get areg k)) k = get_count_for_nodes areg k + 1
    \<and> snd (AIActionsRegistry_get areg k) \<noteq> areg)"
proof -
  have m: "get_count_for_model (snd (ModelRegistry_get mreg i)) i = get_count_for_model mreg i + 1"
    by (simp add: ModelRegistry_get_def get_count_for_model_def dict_get_bump_same Let_def
        split: option.splits)
  have p: "get_count_for_nodes (snd (ProgramaticActionsRegistry_get preg j)) j = get_count_for_nodes preg j + 1"
    by (simp add: ProgramaticActionsRegistry_get_def get_count_for_nodes_def dict_get_bump_same Let_def
        split: option.splits)
  have a: "get_count_for_nodes (snd (AIActionsRegistry_get areg k)) k = get_count_for_nodes areg k + 1"
    by (simp add: AIActionsRegistry_get_def get_count_for_nodes_def dict_get_bump_same Let_def
        split: option.splits)
  have m': "snd (ModelRegistry_get mreg i) \<noteq> mreg"
  proof
    assume "snd (ModelRegistry_get mreg i) = mreg"
    with m show False by simp
  qed
  have p': "snd (ProgramaticActionsRegistry_get preg j) \<noteq> preg"
  proof
    assume "snd (ProgramaticActionsRegistry_get preg j) = preg"
    with p show False by simp
  qed
  have a': "snd (AIActionsRegistry_get areg k) \<noteq> areg"
  proof
    assume "snd (AIActionsRegistry_get areg k) = areg"
    with a show False by simp
  qed
  have e: "\<not> dict_has (models mreg) i \<longrightarrow> fst (ModelRegistry_get mreg i) = Inl (NotFound i)"
    "\<not> dict_has (nodes preg) j \<longrightarrow> fst (ProgramaticActionsRegistry_get preg j) = Inl (NotFound j)"
    "\<not> dict_has (nodes areg) k \<longrightarrow> fst (AIActionsRegistry_get areg k) = Inl (NotFound k)"
    by (simp_all add: ModelRegistry_get_def ProgramaticActionsRegistry_get_def AIActionsRegistry_get_def
        dict_has_map_of Let_def)
  from m p a m' p' a' e show ?thesis by blast
qed

theorem get_absent_counts_witness:
  "\<not> dict_has (models echo_registry) ''gpt''
   \<and> \<not> dict_has (nodes upper_registry) ''lower''
   \<and> \<not> dict_has (nodes hello_registry) ''bye''
   \<and> ModelRegistry_get echo_registry ''gpt''
        = (Inl (NotFound ''gpt''), echo_registry\<lparr>counter := [(''gpt'', 1)]\<rparr>)
   \<and> get_count_for_model (snd (ModelRegistry_get echo_registry ''gpt'')) ''gpt'' = 1
   \<and> get_count_for_nodes (snd (ProgramaticActionsRegistry_get upper_registry ''lower'')) ''lower'' = 1
   \<and> get_count_for_nodes (snd (AIActionsRegistry_get hello_registry ''bye'')) ''bye'' = 1
   \<and> snd (AIActionsRegistry_get hello_registry ''bye'') \<noteq> hello_registry"
proof -
  have h1: "\<not> dict_has (models echo_registry) ''gpt''"
    by (simp add: echo_registry_def dict_has_def)
  have h2: "\<not> dict_has (nodes upper_registry) ''lower''"
    by (simp add: upper_registry_def dict_has_def)
  have h3: "\<not> dict_has (nodes hello_registry) ''bye''"
    by (simp add: hello_registry_def dict_has_def)
  have c0: "get_count_for_model echo_registry ''gpt'' = 0"
    "get_count_for_nodes upper_registry ''lower'' = 0"
    "get_count_for_nodes hello_registry ''bye'' = 0"
    by (simp_all add: get_count_for_model_def get_count_for_nodes_def dict_get_def
        echo_registry_def upper_registry_def hello_registry_def)
  have g: "ModelRegistry_get echo_registry ''gpt''
        = (Inl (NotFound ''gpt''), echo_registry\<lparr>counter := [(''gpt'', 1)]\<rparr>)"
    by (simp add: ModelRegistry_get_def echo_registry_def bump_def dict_get_def Let_def)
  show ?thesis
    using get_absent_counts [of echo_registry "''gpt''" upper_registry "''lower''"
        hello_registry "''bye''"] h1 h2 h3 c0 g
    by simp
qed

text \<open>
  C9. For every registry and every tag argument, the enumeration (\<^verbatim>\<open>get_models\<close> of the model
  registry, \<^verbatim>\<open>get_nodes\<close> of the two action registries) returns one entry for every registered
  id, whatever the tag: the tag is not read and nothing is filtered.
\<close>

theorem enumeration_ignores_tag:
  "ModelRegistry_get_models md mreg tag = ModelRegistry_get_models md mreg tag'
   \<and> map (map fst) (ModelRegistry_get_models md mreg tag) = map (\<lambda>k. [k]) (map fst (models mreg))
   \<and> ProgramaticActionsRegistry_get_nodes nd preg tag = ProgramaticActionsRegistry_get_nodes nd preg tag'
   \<and> map (map fst) (ProgramaticActionsRegistry_get_nodes nd preg tag) = map (\<lambda>k. [k]) (map fst (nodes preg))
   \<and> AIActionsRegistry_get_nodes nd areg tag = AIActionsRegistry_get_nodes nd areg tag'
   \<and> map (map fst) (AIActionsRegistry_get_nodes nd areg tag) = map (\<lambda>k. [k]) (map fst (nodes areg))"
  by (simp add: ModelRegistry_get_models_def ProgramaticActionsRegistry_get_nodes_def
      AIActionsRegistry_get_nodes_def case_prod_beta)

lemma tagged_enumeration_example:
  "map (map fst) (AIActionsRegistry_get_nodes nd hello_registry ''no-such-tag'') = [[''hello'']]
   \<and> dict_get (tags_to_nodes hello_registry) ''no-such-tag'' [] = []"
  by (simp add: AIActionsRegistry_get_nodes_def hello_registry_def dict_get_def)

section \<open>Properties of the AI action\<close>

lemma chat_init:
  "AIAction_init ''greet'' chat_model [(''model'', JStr ''gpt'')] (FnDict chat_template) chat_outputs
     = Inr chat_action"
  by (simp add: AIAction_init_def chat_action_def chat_template_def placeholders_def
      jtype_to_vars_def strip_def text_var_def chat_model_def model_var_def messages_var_def
      py_index_def)

lemma hello_params:
  "model_final_params render_simple hello_action [(''text'', JStr ''hi'')] = Continue [(''say'', JStr ''hi'')]"
  by (simp add: model_final_params_def hello_action_def text_var_def dict_has_def dict_get_def
      produce_def render_templates_def render_simple_def strip_def dict_update_def AList.delete_eq)

lemma chat_params:
  "model_final_params render_simple chat_action [(''text'', JStr ''hi'')]
     = Continue [(''model'', JStr ''gpt''),
                 (''messages'', JList [JDict [(''role'', JStr ''user''), (''content'', JStr ''Say hi'')]])]"
  by (simp add: model_final_params_def chat_action_def text_var_def dict_has_def dict_get_def
      produce_def render_templates_def render_simple_def strip_def dict_update_def AList.delete_eq
      chat_template_def py_index_def)

lemma init_templates_not_subset_error:
  "init_templates f fwl flds tmpls \<noteq> Inl ParamsNotSubset"
  by (induction f fwl flds tmpls rule: init_templates.induct)
     (simp_all split: option.splits jval.splits)

text \<open>
  C5. For every construction of an AI action: if the keys of \<^verbatim>\<open>model_params\<close> are not a subset
  of the field names of the wrapped model, the construction fails (with the error of that
  check); if they are a subset, the construction does not fail on that check.
\<close>

theorem model_params_subset_check:
  "(\<not> set (map fst mparams) \<subseteq> set (map name (vars m)) \<longrightarrow>
      AIAction_init nid m mparams f outs = Inl ParamsNotSubset)
   \<and> (set (map fst mparams') \<subseteq> set (map name (vars m)) \<longrightarrow>
      AIAction_init nid m mparams' f outs \<noteq> Inl ParamsNotSubset)"
  using init_templates_not_subset_error
  by (auto simp: AIAction_init_def split: fn_object.splits sum.splits)

theorem model_params_subset_check_witness:
  "\<not> set (map fst [(''temperature'', JNum 1)]) \<subseteq> set (map name (vars chat_model))
   \<and> AIAction_init ''greet'' chat_model [(''temperature'', JNum 1)] (FnDict chat_template) chat_outputs
       = Inl ParamsNotSubset
   \<and> set (map fst [(''model'', JStr ''gpt'')]) \<subseteq> set (map name (vars chat_model))
   \<and> AIAction_init ''greet'' chat_model [(''model'', JStr ''gpt'')] (FnDict chat_template) chat_outputs
       = Inr chat_action"
proof -
  have h1: "\<not> set (map fst [(''temperature'', JNum 1)]) \<subseteq> set (map name (vars chat_model))"
    by (simp add: chat_model_def model_var_def messages_var_def)
  have h2: "set (map fst [(''model'', JStr ''gpt'')]) \<subseteq> set (map name (vars chat_model))"
    by (simp add: chat_model_def model_var_def messages_var_def)
  show ?thesis
    using model_params_subset_check [of "[(''temperature'', JNum 1)]" chat_model "''greet''"
        "FnDict chat_template" chat_outputs "[(''model'', JStr ''gpt'')]"] h1 h2 chat_init
    by simp
qed

text \<open>
  C6, as the code has it. For every invocation of an AI action that reaches the model, if the
  model returns (result, error) with an error, the action returns the pair of the empty string
  and that same error: the error is handed on unchanged, the result of the model is dropped.
\<close>

theorem model_error_propagated:
  "model_final_params render a data = Continue ps \<Longrightarrow>
   run (model_fn (model a)) ps = (out, Some e) \<Longrightarrow>
   AIAction_call render a data = Inr (JStr [], Some e)"
  by (simp add: AIAction_call_def)

lemma broken_params:
  "model_final_params render_simple broken_action [(''text'', JStr ''hi'')] = Continue [(''say'', JStr ''hi'')]"
  by (simp add: model_final_params_def broken_action_def hello_action_def text_var_def dict_has_def
      dict_get_def produce_def render_templates_def render_simple_def strip_def dict_update_def
      AList.delete_eq)

theorem model_error_propagated_witness:
  "model_final_params render_simple broken_action [(''text'', JStr ''hi'')] = Continue [(''say'', JStr ''hi'')]
   \<and> run (model_fn (model broken_action)) [(''say'', JStr ''hi'')]
       = (JStr ''Traceback'', Some (UpstreamError ''boom''))
   \<and> AIAction_call render_simple broken_action [(''text'', JStr ''hi'')]
       = Inr (JStr [], Some (UpstreamError ''boom''))"
proof -
  have r: "run (model_fn (model broken_action)) [(''say'', JStr ''hi'')]
       = (JStr ''Traceback'', Some (UpstreamError ''boom''))"
    by (simp add: broken_action_def broken_model_def broken_fn_def)
  from model_error_propagated [OF broken_params r] broken_params r show ?thesis by simp
qed

text \<open>
  The claim C6 as it is written fails: the model \<^verbatim>\<open>broken\<close> returns the pair
  (\<^verbatim>\<open>"Traceback"\<close>, error) and the action does not return that pair.
\<close>

theorem model_pair_not_unchanged:
  "run (model_fn (model broken_action)) [(''say'', JStr ''hi'')]
       = (JStr ''Traceback'', Some (UpstreamError ''boom''))
   \<and> model_final_params render_simple broken_action [(''text'', JStr ''hi'')] = Continue [(''say'', JStr ''hi'')]
   \<and> AIAction_call render_simple broken_action [(''text'', JStr ''hi'')]
       \<noteq> Inr (run (model_fn (model broken_action)) [(''say'', JStr ''hi'')])"
proof -
  have r: "run (model_fn (model broken_action)) [(''say'', JStr ''hi'')]
       = (JStr ''Traceback'', Some (UpstreamError ''boom''))"
    by (simp add: broken_action_def broken_model_def broken_fn_def)
  have c: "AIAction_call render_simple broken_action [(''text'', JStr ''hi'')]
       = Inr (JStr [], Some (UpstreamError ''boom''))"
    by (simp add: AIAction_call_def broken_params r)
  from r c broken_params show ?thesis by simp
qed

lemma map_of_fold_update:
  "map_of (fold (\<lambda>(k, v) acc. AList.update k v acc) e d) = map_of d ++ map_of (rev e)"
proof (induction e arbitrary: d)
  case Nil
  show ?case by simp
next
  case (Cons x e)
  obtain k v where x: "x = (k, v)" by (cases x)
  show ?case
    by (simp add: x Cons.IH update_conv' fun_eq_iff map_add_def split: option.splits)
qed

lemma map_of_rev_distinct: "distinct (map fst e) \<Longrightarrow> map_of (rev e) = map_of e"
proof (induction e)
  case Nil
  show ?case by simp
next
  case (Cons x e)
  obtain k v where x: "x = (k, v)" by (cases x)
  from Cons.prems have "map_of e k = None"
    by (simp add: x map_of_eq_None_iff)
  with Cons show ?case
    by (auto simp: x fun_eq_iff map_add_def split: option.splits)
qed

lemma map_of_dict_update:
  "is_dict e \<Longrightarrow>
   map_of (dict_update d e) k = (case map_of e k of Some v \<Rightarrow> Some v | None \<Rightarrow> map_of d k)"
  by (simp add: dict_update_def is_dict_def map_of_fold_update map_of_rev_distinct map_add_def)

lemma take_fields_rest:
  "take_fields nid fs data own = Inr (rest, own') \<Longrightarrow>
   map_of rest k = (if k \<in> set (map name fs) then None else map_of data k)"
proof (induction fs arbitrary: data own)
  case Nil
  then show ?case by simp
next
  case (Cons f fs)
  show ?case
  proof (cases "dict_has data (name f)")
    case True
    with Cons.prems have
      "take_fields nid fs (AList.delete (name f) data)
         (AList.update (name f) (dict_get data (name f) JNull) own) = Inr (rest, own')"
      by simp
    from Cons.IH [OF this] show ?thesis
      by (simp add: delete_conv')
  next
    case False
    with Cons.prems have r: "take_fields nid fs data own = Inr (rest, own')"
      by (simp split: if_splits)
    from False have "map_of data (name f) = None"
      by (simp add: dict_has_map_of)
    with Cons.IH [OF r] show ?thesis by auto
  qed
qed

lemma take_fields_is_dict:
  "take_fields nid fs data own = Inr (rest, own') \<Longrightarrow> is_dict data \<Longrightarrow> is_dict rest"
proof (induction fs arbitrary: data own)
  case Nil
  then show ?case by simp
next
  case (Cons f fs)
  show ?case
  proof (cases "dict_has data (name f)")
    case True
    with Cons.prems have
      t: "take_fields nid fs (AList.delete (name f) data)
         (AList.update (name f) (dict_get data (name f) JNull) own) = Inr (rest, own')"
      by simp
    from Cons.prems have "is_dict (AList.delete (name f) data)"
      by (simp add: is_dict_def distinct_delete)
    with Cons.IH [OF t] show ?thesis .
  next
    case False
    with Cons.prems have r: "take_fields nid fs data own = Inr (rest, own')"
      by (simp split: if_splits)
    from Cons.IH [OF r] Cons.prems show ?thesis by simp
  qed
qed

text \<open>
  C3. For every invocation of an AI action that reaches the model, the parameters passed to
  the model are the static \<^verbatim>\<open>model_params\<close>, updated with the payload keys that are not
  names of the action's own fields, updated with the produced request body. So a key of the
  body has the value of the body, whatever the payload and the static parameters hold; a key
  that is only in the payload and the static parameters has the value of the payload; any
  other key has the value of the static parameters.
\<close>

theorem merge_order:
  assumes "take_fields (node_id a) (a_fields a) data [] = Inr (rest, own)"
    and "produce render a own = Continue (JDict body)"
    and "is_dict data" and "is_dict body"
  shows "model_final_params render a data
           = Continue (dict_update (dict_update (model_params a) rest) body)
       \<and> AIAction_call render a data
           = (case run (model_fn (model a)) (dict_update (dict_update (model_params a) rest) body) of
                (out, err) \<Rightarrow> if err \<noteq> None then Inr (JStr [], err) else Inr (out, err))
       \<and> map_of rest k = (if k \<in> set (map name (a_fields a)) then None else map_of data k)
       \<and> map_of (dict_update (dict_update (model_params a) rest) body) k
           = (case map_of body k of
                Some v \<Rightarrow> Some v
              | None \<Rightarrow> (case map_of rest k of
                           Some v \<Rightarrow> Some v
                         | None \<Rightarrow> map_of (model_params a) k))"
proof -
  have p: "model_final_params render a data
           = Continue (dict_update (dict_update (model_params a) rest) body)"
    using assms(1,2) by (simp add: model_final_params_def)
  have c: "AIAction_call render a data
           = (case run (model_fn (model a)) (dict_update (dict_update (model_params a) rest) body) of
                (out, err) \<Rightarrow> if err \<noteq> None then Inr (JStr [], err) else Inr (out, err))"
    by (simp add: AIAction_call_def p)
  have r: "map_of rest k = (if k \<in> set (map name (a_fields a)) then None else map_of data k)"
    using take_fields_rest [OF assms(1)] .
  have d: "is_dict rest"
    using take_fields_is_dict [OF assms(1,3)] .
  have m: "map_of (dict_update (dict_update (model_params a) rest) body) k
           = (case map_of body k of
                Some v \<Rightarrow> Some v
              | None \<Rightarrow> (case map_of rest k of
                           Some v \<Rightarrow> Some v
                         | None \<Rightarrow> map_of (model_params a) k))"
    by (simp add: map_of_dict_update [OF assms(4)] map_of_dict_update [OF d] split: option.splits)
  from p c r m show ?thesis by blast
qed

theorem merge_order_witness:
  "take_fields (node_id chat_action) (a_fields chat_action)
       [(''text'', JStr ''hi''), (''model'', JStr ''mini''), (''messages'', JStr ''mine'')] []
     = Inr ([(''model'', JStr ''mini''), (''messages'', JStr ''mine'')], [(''text'', JStr ''hi'')])
   \<and> produce render_simple chat_action [(''text'', JStr ''hi'')]
     = Continue (JDict [(''messages'', JList [JDict [(''role'', JStr ''user''), (''content'', JStr ''Say hi'')]])])
   \<and> is_dict [(''text'', JStr ''hi''), (''model'', JStr ''mini''), (''messages'', JStr ''mine'')]
   \<and> is_dict [(''messages'', JList [JDict [(''role'', JStr ''user''), (''content'', JStr ''Say hi'')]])]
   \<and> model_final_params render_simple chat_action
       [(''text'', JStr ''hi''), (''model'', JStr ''mini''), (''messages'', JStr ''mine'')]
     = Continue [(''model'', JStr ''mini''),
                 (''messages'', JList [JDict [(''role'', JStr ''user''), (''content'', JStr ''Say hi'')]])]
   \<and> map_of (model_params chat_action) ''model'' = Some (JStr ''gpt'')"
proof -
  have t: "take_fields (node_id chat_action) (a_fields chat_action)
       [(''text'', JStr ''hi''), (''model'', JStr ''mini''), (''messages'', JStr ''mine'')] []
     = Inr ([(''model'', JStr ''mini''), (''messages'', JStr ''mine'')], [(''text'', JStr ''hi'')])"
    by (simp add: chat_action_def text_var_def dict_has_def dict_get_def AList.delete_eq)
  have b: "produce render_simple chat_action [(''text'', JStr ''hi'')]
     = Continue (JDict [(''messages'', JList [JDict [(''role'', JStr ''user''), (''content'', JStr ''Say hi'')]])])"
    by (simp add: produce_def chat_action_def chat_template_def render_templates_def
        render_simple_def strip_def py_index_def)
  have d1: "is_dict [(''text'', JStr ''hi''), (''model'', JStr ''mini''), (''messages'', JStr ''mine'')]"
    by (simp add: is_dict_def)
  have d2: "is_dict [(''messages'', JList [JDict [(''role'', JStr ''user''), (''content'', JStr ''Say hi'')]])]"
    by (simp add: is_dict_def)
  have u: "dict_update (dict_update (model_params chat_action)
              [(''model'', JStr ''mini''), (''messages'', JStr ''mine'')])
              [(''messages'', JList [JDict [(''role'', JStr ''user''), (''content'', JStr ''Say hi'')]])]
     = [(''model'', JStr ''mini''),
        (''messages'', JList [JDict [(''role'', JStr ''user''), (''content'', JStr ''Say hi'')]])]"
    by (simp add: dict_update_def chat_action_def)
  have s: "map_of (model_params chat_action) ''model'' = Some (JStr ''gpt'')"
    by (simp add: chat_action_def)
  from merge_order [OF t b d1 d2, of "''model''"] t b d1 d2 u s show ?thesis by simp
qed

text \<open>
  C2, as the code has it. For every AI action, an invocation whose model call succeeds returns
  the raw result of the model as it is, whether or not outputs are declared:
  \<^verbatim>\<open>AIAction.__call__\<close> extracts nothing and wraps nothing. The declared outputs are recorded
  at registration only: the output fields of the node are one descriptor for each declared
  name with its extraction path, or, when none is declared, one entry for the default name
  \<^verbatim>\<open>model_output\<close> with the empty path.
\<close>

theorem raw_result_returned:
  "(model_final_params render a data = Continue ps \<and> run (model_fn (model a)) ps = (out, None)
      \<longrightarrow> AIAction_call render a data = Inr (out, None))
   \<and> (AIActionsRegistry_register mreg reg nid mid mparams f outs descr tgs = (Inr node, mreg', reg')
      \<longrightarrow> Node_outputs node =
            (if outs = []
             then [OutVars [\<lparr>name = ''model_output'', required = False, vtype = ''any'', loc = []\<rparr>]]
             else map (\<lambda>(k, l). OutVar \<lparr>name = k, required = False, vtype = ''any'', loc = l\<rparr>) outs))"
proof -
  have c: "model_final_params render a data = Continue ps \<and> run (model_fn (model a)) ps = (out, None)
      \<longrightarrow> AIAction_call render a data = Inr (out, None)"
    by (simp add: AIAction_call_def)
  have r: "AIActionsRegistry_register mreg reg nid mid mparams f outs descr tgs = (Inr node, mreg', reg')
      \<longrightarrow> Node_outputs node =
            (if outs = []
             then [OutVars [\<lparr>name = ''model_output'', required = False, vtype = ''any'', loc = []\<rparr>]]
             else map (\<lambda>(k, l). OutVar \<lparr>name = k, required = False, vtype = ''any'', loc = l\<rparr>) outs)"
    by (auto simp: AIActionsRegistry_register_def Let_def func_to_return_vars_def
        split: prod.splits sum.splits)
  from c r show ?thesis by blast
qed

lemma chat_call:
  "AIAction_call render_simple chat_action [(''text'', JStr ''hi'')] = Inr (chat_answer, None)"
  by (simp add: AIAction_call_def chat_params) (simp add: chat_action_def chat_model_def chat_fn_def)

lemma hello_call:
  "AIAction_call render_simple hello_action [(''text'', JStr ''hi'')] = Inr (JDict [(''say'', JStr ''hi'')], None)"
  by (simp add: AIAction_call_def hello_params) (simp add: hello_action_def echo_model_def echo_fn_def)

lemma chat_registered:
  "AIActionsRegistry_register chat_registry ActionsRegistry_init ''greet'' ''chat''
      [(''model'', JStr ''gpt'')] (FnDict chat_template) chat_outputs ''greets'' []
     = (Inr chat_node, chat_registry\<lparr>counter := [(''chat'', 1)]\<rparr>,
        \<lparr>counter = [], nodes = [(''greet'', chat_node)], tags_to_nodes = []\<rparr>)"
proof -
  have f: "a_fields chat_action = [text_var]" "vars chat_model = [model_var, messages_var]"
    by (simp_all add: chat_action_def chat_model_def)
  have o: "chat_outputs \<noteq> []"
    "map (\<lambda>(k, l). OutVar \<lparr>name = k, required = False, vtype = ''any'', loc = l\<rparr>) chat_outputs
       = [OutVar \<lparr>name = ''chat_reply'', required = False, vtype = ''any'',
                  loc = [K ''choices'', I 0, K ''message'', K ''content'']\<rparr>]"
    by (simp_all add: chat_outputs_def)
  show ?thesis
    by (simp add: AIActionsRegistry_register_def ModelRegistry_get_def bump_def dict_get_def chat_init
        chat_registry_def chat_node_def ActionsRegistry_init_def add_tags_def Let_def f o)
qed

theorem raw_result_returned_witness:
  "model_final_params render_simple chat_action [(''text'', JStr ''hi'')]
     = Continue [(''model'', JStr ''gpt''),
                 (''messages'', JList [JDict [(''role'', JStr ''user''), (''content'', JStr ''Say hi'')]])]
   \<and> run (model_fn (model chat_action))
        [(''model'', JStr ''gpt''),
         (''messages'', JList [JDict [(''role'', JStr ''user''), (''content'', JStr ''Say hi'')]])]
     = (chat_answer, None)
   \<and> AIAction_call render_simple chat_action [(''text'', JStr ''hi'')] = Inr (chat_answer, None)
   \<and> AIActionsRegistry_register chat_registry ActionsRegistry_init ''greet'' ''chat''
        [(''model'', JStr ''gpt'')] (FnDict chat_template) chat_outputs ''greets'' []
     = (Inr chat_node, chat_registry\<lparr>counter := [(''chat'', 1)]\<rparr>,
        \<lparr>counter = [], nodes = [(''greet'', chat_node)], tags_to_nodes = []\<rparr>)
   \<and> Node_outputs chat_node
     = [OutVar \<lparr>name = ''chat_reply'', required = False, vtype = ''any'',
                loc = [K ''choices'', I 0, K ''message'', K ''content'']\<rparr>]"
proof -
  have m: "run (model_fn (model chat_action))
        [(''model'', JStr ''gpt''),
         (''messages'', JList [JDict [(''role'', JStr ''user''), (''content'', JStr ''Say hi'')]])]
     = (chat_answer, None)"
    by (simp add: chat_action_def chat_model_def chat_fn_def)
  have o: "chat_outputs \<noteq> []"
    by (simp add: chat_outputs_def)
  have n: "Node_outputs chat_node
     = [OutVar \<lparr>name = ''chat_reply'', required = False, vtype = ''any'',
                loc = [K ''choices'', I 0, K ''message'', K ''content'']\<rparr>]"
    by (simp add: chat_node_def)
  from raw_result_returned [of render_simple chat_action "[(''text'', JStr ''hi'')]"
      "[(''model'', JStr ''gpt''),
        (''messages'', JList [JDict [(''role'', JStr ''user''), (''content'', JStr ''Say hi'')]])]"
      chat_answer chat_registry ActionsRegistry_init "''greet''" "''chat''"
      "[(''model'', JStr ''gpt'')]" "FnDict chat_template" chat_outputs "''greets''" "[]"
      chat_node "chat_registry\<lparr>counter := [(''chat'', 1)]\<rparr>"
      "\<lparr>counter = [], nodes = [(''greet'', chat_node)], tags_to_nodes = []\<rparr>"]
    chat_params m chat_registered n
  show ?thesis by simp
qed

text \<open>
  The claim C2 as it is written fails. The action \<^verbatim>\<open>greet\<close> declares the output
  \<^verbatim>\<open>chat_reply\<close> at \<^verbatim>\<open>("choices", 0, "message", "content")\<close>; the path leads to
  \<^verbatim>\<open>"hello"\<close> in the answer of the model, and the invocation returns the answer itself,
  which binds no \<^verbatim>\<open>chat_reply\<close>. The action \<^verbatim>\<open>hello\<close> declares no output, and its
  invocation returns the result of the model, not a mapping with a default output name.
\<close>

theorem declared_output_not_extracted:
  "outputs chat_action = [(''chat_reply'', [K ''choices'', I 0, K ''message'', K ''content''])]
   \<and> AIAction_call render_simple chat_action [(''text'', JStr ''hi'')] = Inr (chat_answer, None)
   \<and> get_value_by_keys chat_answer [K ''choices'', I 0, K ''message'', K ''content'']
       = Some (JStr ''hello'')
   \<and> get_child chat_answer (K ''chat_reply'') = None
   \<and> outputs hello_action = []
   \<and> AIAction_call render_simple hello_action [(''text'', JStr ''hi'')]
       = Inr (JDict [(''say'', JStr ''hi'')], None)
   \<and> get_child (JDict [(''say'', JStr ''hi'')]) (K ''model_output'') = None"
  by (simp add: chat_call hello_call)
     (simp add: chat_action_def chat_outputs_def chat_answer_def py_index_def hello_action_def)

section \<open>Properties of the chain loader\<close>

text \<open>
  C8. For every fetched chain definition whose dag lacks \<^verbatim>\<open>sample\<close>, \<^verbatim>\<open>main_in\<close> or
  \<^verbatim>\<open>main_out\<close>, the construction of the chain is rejected with an error before any node is
  resolved: the two registries are as they were (no lookup was counted) and the only request
  sent to the server is the one for the chain itself (no action was looked up).
\<close>

theorem incomplete_dag_rejected:
  assumes "chatbot remote ident = Inr dag"
    and "falsy (sample dag) \<or> falsy (main_in dag) \<or> falsy (main_out dag)"
  shows "(\<exists>msg. fst (get_chain_from_id (Inr remote) from_dict env ident) = Inl (ChainError msg))
       \<and> snd (get_chain_from_id (Inr remote) from_dict env ident)
           = env\<lparr>remote_calls := remote_calls env @ [GetChatbot ident]\<rparr>
       \<and> ai_actions_registry (snd (get_chain_from_id (Inr remote) from_dict env ident))
           = ai_actions_registry env
       \<and> programatic_actions_registry (snd (get_chain_from_id (Inr remote) from_dict env ident))
           = programatic_actions_registry env
       \<and> remote_calls (snd (get_chain_from_id (Inr remote) from_dict env ident))
           = remote_calls env @ [GetChatbot ident]"
  using assms by (auto simp: get_chain_from_id_def Let_def)

theorem incomplete_dag_rejected_witness:
  "chatbot demo_remote ''c1'' = Inr demo_dag
   \<and> falsy (main_out demo_dag)
   \<and> get_chain_from_id (Inr demo_remote) demo_from_dict demo_env ''c1''
       = (Inl (ChainError ''Dag has no main_out''), demo_env\<lparr>remote_calls := [GetChatbot ''c1'']\<rparr>)
   \<and> get_count_for_nodes
        (ai_actions_registry (snd (get_chain_from_id (Inr demo_remote) demo_from_dict demo_env ''c1'')))
        ''hello'' = 0"
proof -
  have h1: "chatbot demo_remote ''c1'' = Inr demo_dag"
    by (simp add: demo_remote_def)
  have h2: "falsy (main_out demo_dag)"
    by (simp add: demo_dag_def falsy_def)
  then have h3: "falsy (sample demo_dag) \<or> falsy (main_in demo_dag) \<or> falsy (main_out demo_dag)"
    by simp
  have f: "fst (get_chain_from_id (Inr demo_remote) demo_from_dict demo_env ''c1'')
       = Inl (ChainError ''Dag has no main_out'')"
    by (simp add: get_chain_from_id_def h1 Let_def) (simp add: demo_dag_def falsy_def)
  have r: "remote_calls demo_env = []"
    by (simp add: demo_env_def)
  have c: "get_count_for_nodes (ai_actions_registry demo_env) ''hello'' = 0"
    by (simp add: demo_env_def hello_registry_def get_count_for_nodes_def dict_get_def)
  from incomplete_dag_rejected [OF h1 h3, of demo_from_dict demo_env] h1 h2 f r c
  show ?thesis by (simp add: prod_eq_iff)
qed

text \<open>
  For comparison: the complete chain \<^verbatim>\<open>c2\<close> over the same node is built, and the lookup of
  its node in the AI registry is counted.
\<close>

lemma complete_dag_looks_up:
  "get_count_for_nodes
     (ai_actions_registry (snd (get_chain_from_id (Inr demo_remote) from_dict demo_env ''c2'')))
     ''hello'' = 1
   \<and> map Node_id (case fst (get_chain_from_id (Inr demo_remote) from_dict demo_env ''c2'') of
                     Inr c \<Rightarrow> chain_nodes c | Inl e \<Rightarrow> []) = [''n1'']"
  by (simp add: get_chain_from_id_def demo_remote_def demo_dag_def falsy_def Let_def demo_env_def
      resolve_node_def text_of_def dict_has_def AIActionsRegistry_get_def hello_registry_def
      bump_def dict_get_def set_id_def get_count_for_nodes_def List.map_filter_def deref_def)

section \<open>Registering an id twice\<close>

lemma ModelRegistry_register_duplicate:
  "dict_has (models reg) mid \<Longrightarrow> ModelRegistry_register reg f cname mid descr tgs = Inl (DuplicateId mid)"
  by (simp add: ModelRegistry_register_def)

lemma ProgramaticActionsRegistry_register_duplicate:
  "dict_has (nodes reg) nid \<Longrightarrow>
   ProgramaticActionsRegistry_register reg f nid descr returns outs tgs = Inl (DuplicateId nid)"
  by (simp add: ProgramaticActionsRegistry_register_def)

lemma registered_twice_examples:
  "ModelRegistry_register echo_registry echo_fn ''demo'' ''echo'' ''again'' [''t''] = Inl (DuplicateId ''echo'')
   \<and> ProgramaticActionsRegistry_register upper_registry upper_fn ''upper'' ''again'' [''out''] None [''t'']
       = Inl (DuplicateId ''upper'')"
  by (simp add: ModelRegistry_register_duplicate ProgramaticActionsRegistry_register_duplicate
      dict_has_def echo_registry_def upper_registry_def)

text \<open>
  C4. The claim: in every registry, \<^verbatim>\<open>register\<close> with an id that is already registered fails
  with the DuplicateId error and leaves the entry of the id and the tag index as they were.
  The model registry and the programmatic registry do so. \<^verbatim>\<open>AIActionsRegistry.register\<close> has
  no such test: registering \<^verbatim>\<open>hello\<close> a second time returns a node, replaces the entry of
  \<^verbatim>\<open>hello\<close> and adds \<^verbatim>\<open>hello\<close> to the tag index once more.
\<close>

theorem ai_register_twice_overwrites:
  "map_of (nodes hello_registry) ''hello'' = Some hello_node
   \<and> dict_get (tags_to_nodes hello_registry) ''demo'' [] = [''hello'']
   \<and> AIActionsRegistry_register echo_registry hello_registry ''hello'' ''echo'' []
        (FnDict [(''say'', JStr ''{{text}}'')]) [] ''second'' [''demo'']
     = (Inr (hello_node\<lparr>Node_description := ''second''\<rparr>),
        echo_registry\<lparr>counter := [(''echo'', 1)]\<rparr>,
        \<lparr>counter = [],
         nodes = [(''hello'', hello_node\<lparr>Node_description := ''second''\<rparr>)],
         tags_to_nodes = [(''demo'', [''hello'', ''hello''])]\<rparr>)
   \<and> hello_node\<lparr>Node_description := ''second''\<rparr> \<noteq> hello_node"
proof -
  have f: "a_fields hello_action = [text_var]" "vars echo_model = [say_var]"
    by (simp_all add: hello_action_def echo_model_def)
  have r: "AIActionsRegistry_register echo_registry hello_registry ''hello'' ''echo'' []
        (FnDict [(''say'', JStr ''{{text}}'')]) [] ''second'' [''demo'']
     = (Inr (hello_node\<lparr>Node_description := ''second''\<rparr>),
        echo_registry\<lparr>counter := [(''echo'', 1)]\<rparr>,
        \<lparr>counter = [],
         nodes = [(''hello'', hello_node\<lparr>Node_description := ''second''\<rparr>)],
         tags_to_nodes = [(''demo'', [''hello'', ''hello''])]\<rparr>)"
    by (simp add: AIActionsRegistry_register_def ModelRegistry_get_def bump_def dict_get_def hello_init
        echo_registry_def hello_node_def hello_registry_def add_tags_def
        func_to_return_vars_def Let_def f)
  have n: "hello_node\<lparr>Node_description := ''second''\<rparr> \<noteq> hello_node"
    by (simp add: hello_node_def)
  have h: "map_of (nodes hello_registry) ''hello'' = Some hello_node"
    "dict_get (tags_to_nodes hello_registry) ''demo'' [] = [''hello'']"
    by (simp_all add: hello_registry_def dict_get_def)
  from h r n show ?thesis by blast
qed

section \<open>Rendering a template\<close>

lemma twice_init:
  "AIAction_init ''twice'' echo_model [] (FnDict twice_template) [] = Inr twice_action"
  by (simp add: AIAction_init_def twice_action_def twice_template_def placeholders_def
      jtype_to_vars_def strip_def x_var_def)

text \<open>
  C1. The claim: every AI action in template mode, invoked with a payload that supplies every
  placeholder variable of the template, produces the template with each placeholder leaf
  replaced by its rendered string. The action built from \<^verbatim>\<open>{"a": "{{x}}", "b": "{{x}}"}\<close>
  has the field \<^verbatim>\<open>x\<close> twice (\<^verbatim>\<open>fields.extend\<close> of \<^verbatim>\<open>__init__\<close>); the first round of the loop
  of \<^verbatim>\<open>__call__\<close> pops \<^verbatim>\<open>x\<close> from the payload, and the second round finds a required field
  that the payload no longer holds. The invocation with \<^verbatim>\<open>{"x": "hi"}\<close> raises and produces
  no request.
\<close>

theorem repeated_variable_raises:
  "AIAction_init ''twice'' echo_model [] (FnDict twice_template) [] = Inr twice_action
   \<and> map name (a_fields twice_action) = [''x'', ''x'']
   \<and> dict_has [(''x'', JStr ''hi'')] ''x''
   \<and> model_final_params render twice_action [(''x'', JStr ''hi'')] = Raise (MissingField ''x'' ''twice'')
   \<and> AIAction_call render twice_action [(''x'', JStr ''hi'')] = Inl (MissingField ''x'' ''twice'')"
  by (simp add: twice_init AIAction_call_def model_final_params_def)
     (simp add: twice_action_def x_var_def dict_has_def dict_get_def AList.delete_eq)

subsection \<open>The round trip where no variable is named twice\<close>

text \<open>
  The loop of \<open>render_templates\<close> over the leaves of a well-formed template gives
  \<open>rendered_template\<close>: each write changes the one leaf its path names.
\<close>

lemma write_at_dict:
  assumes "map_of kvs k = Some c"
  shows "write_at (JDict kvs) (K k # p) x = JDict (AList.update k (write_at c p x) kvs)"
proof (cases p)
  case Nil
  then show ?thesis by (simp add: write_at_def)
next
  case (Cons k' ks)
  with assms show ?thesis
    by (simp add: write_at_def update_triv split: option.splits)
qed

lemma py_index_nat: "i < length xs \<Longrightarrow> py_index xs (int i) = Some i"
  by (simp add: py_index_def)

lemma write_at_list:
  assumes "i < length xs"
  shows "write_at (JList xs) (I (int i) # p) x = JList (xs[i := write_at (xs ! i) p x])"
proof (cases p)
  case Nil
  with assms show ?thesis by (simp add: write_at_def py_index_nat)
next
  case (Cons k' ks)
  with assms show ?thesis
    by (simp add: write_at_def py_index_nat split: option.splits)
qed

lemma apply_templates_append:
  "apply_templates r (ts @ us) v = apply_templates r us (apply_templates r ts v)"
  by (simp add: apply_templates_def)

lemma apply_templates_dict:
  "map_of kvs k = Some c \<Longrightarrow>
   apply_templates r (map (\<lambda>(raw, p). (raw, K k # p)) ts) (JDict kvs)
     = JDict (AList.update k (apply_templates r ts c) kvs)"
proof (induction ts arbitrary: c kvs)
  case Nil
  then show ?case by (simp add: apply_templates_def update_triv)
next
  case (Cons t ts)
  obtain raw p where t: "t = (raw, p)" by (cases t)
  let ?c = "write_at c p (JStr (r raw))"
  have m: "map_of (AList.update k ?c kvs) k = Some ?c"
    by (simp add: update_conv')
  have "apply_templates r (map (\<lambda>(raw, p). (raw, K k # p)) (t # ts)) (JDict kvs)
      = apply_templates r (map (\<lambda>(raw, p). (raw, K k # p)) ts) (JDict (AList.update k ?c kvs))"
    by (simp add: t apply_templates_def write_at_dict [OF Cons.prems])
  also have "\<dots> = JDict (AList.update k (apply_templates r ts ?c) (AList.update k ?c kvs))"
    by (rule Cons.IH [OF m])
  also have "\<dots> = JDict (AList.update k (apply_templates r (t # ts) c) kvs)"
    by (simp add: t apply_templates_def)
  finally show ?case .
qed

lemma apply_templates_list:
  "i < length xs \<Longrightarrow>
   apply_templates r (map (\<lambda>(raw, p). (raw, I (int i) # p)) ts) (JList xs)
     = JList (xs[i := apply_templates r ts (xs ! i)])"
proof (induction ts arbitrary: xs)
  case Nil
  then show ?case by (simp add: apply_templates_def)
next
  case (Cons t ts)
  obtain raw p where t: "t = (raw, p)" by (cases t)
  let ?c = "write_at (xs ! i) p (JStr (r raw))"
  have l: "i < length (xs[i := ?c])"
    using Cons.prems by simp
  have "apply_templates r (map (\<lambda>(raw, p). (raw, I (int i) # p)) (t # ts)) (JList xs)
      = apply_templates r (map (\<lambda>(raw, p). (raw, I (int i) # p)) ts) (JList (xs[i := ?c]))"
    by (simp add: t apply_templates_def write_at_list [OF Cons.prems])
  also have "\<dots> = JList ((xs[i := ?c])[i := apply_templates r ts ((xs[i := ?c]) ! i)])"
    by (rule Cons.IH [OF l])
  also have "\<dots> = JList (xs[i := apply_templates r (t # ts) (xs ! i)])"
    using Cons.prems by (simp add: t apply_templates_def)
  finally show ?case .
qed

lemma update_middle:
  "k \<notin> fst ` set pre \<Longrightarrow> AList.update k x (pre @ (k, v) # kvs) = pre @ (k, x) # kvs"
  by (induction pre) auto

lemma map_of_middle:
  "k \<notin> fst ` set pre \<Longrightarrow> map_of (pre @ (k, v) # kvs) k = Some v"
  by (induction pre) auto

lemma apply_templates_leaves:
  shows "well_formed v \<longrightarrow> apply_templates r (leaves v) v = rendered_template r v"
    and "\<forall>pre. length pre = i \<longrightarrow> well_formed_list xs \<longrightarrow>
           apply_templates r (leaves_list i xs) (JList (pre @ xs)) = JList (pre @ rendered_list r xs)"
    and "\<forall>pre. distinct (map fst (pre @ kvs)) \<longrightarrow> well_formed_dict kvs \<longrightarrow>
           apply_templates r (leaves_dict kvs) (JDict (pre @ kvs)) = JDict (pre @ rendered_dict r kvs)"
proof (induction v and i xs and kvs rule: leaves_leaves_list_leaves_dict.induct)
  case (1 s)
  show ?case by (simp add: apply_templates_def write_at_def)
next
  case (2 xs)
  from "2.IH" [rule_format, of "[]"] show ?case by simp
next
  case (3 kvs)
  from "3.IH" [rule_format, of "[]"] show ?case by simp
next
  case 4
  show ?case by (simp add: apply_templates_def)
next
  case (5 b)
  show ?case by (simp add: apply_templates_def)
next
  case (6 n)
  show ?case by (simp add: apply_templates_def)
next
  case (7 i)
  show ?case by (simp add: apply_templates_def)
next
  case (8 i x xs)
  show ?case
  proof (intro allI impI)
    fix pre :: "jval list"
    assume len: "length pre = i" and wf: "well_formed_list (x # xs)"
    from len have i: "i < length (pre @ x # xs)" by simp
    have nth: "(pre @ x # xs) ! i = x"
      unfolding len [symmetric] by simp
    have upd: "\<And>y. (pre @ x # xs)[i := y] = (pre @ [y]) @ xs"
      unfolding len [symmetric] by simp
    from wf "8.IH"(1) have x: "apply_templates r (leaves x) x = rendered_template r x" by simp
    from len wf "8.IH"(2) [rule_format, of "pre @ [rendered_template r x]"]
    have xs: "apply_templates r (leaves_list (Suc i) xs) (JList ((pre @ [rendered_template r x]) @ xs))
        = JList ((pre @ [rendered_template r x]) @ rendered_list r xs)"
      by simp
    have "apply_templates r (leaves_list i (x # xs)) (JList (pre @ x # xs))
        = apply_templates r (leaves_list (Suc i) xs)
            (apply_templates r (map (\<lambda>(raw, p). (raw, I (int i) # p)) (leaves x)) (JList (pre @ x # xs)))"
      by (simp add: apply_templates_append)
    also have "\<dots> = apply_templates r (leaves_list (Suc i) xs)
            (JList ((pre @ [rendered_template r x]) @ xs))"
      by (simp only: apply_templates_list [OF i] nth x upd)
    also note xs
    finally show "apply_templates r (leaves_list i (x # xs)) (JList (pre @ x # xs))
        = JList (pre @ rendered_list r (x # xs))"
      by simp
  qed
next
  case 9
  show ?case by (simp add: apply_templates_def)
next
  case (10 k v kvs)
  show ?case
  proof (intro allI impI)
    fix pre :: "(string \<times> jval) list"
    assume d: "distinct (map fst (pre @ (k, v) # kvs))" and wf: "well_formed_dict ((k, v) # kvs)"
    from d have k: "k \<notin> fst ` set pre" by auto
    from wf "10.IH"(1) have v: "apply_templates r (leaves v) v = rendered_template r v" by simp
    from d have d': "distinct (map fst ((pre @ [(k, rendered_template r v)]) @ kvs))" by simp
    from d' wf "10.IH"(2) [rule_format, of "pre @ [(k, rendered_template r v)]"]
    have kvs: "apply_templates r (leaves_dict kvs) (JDict ((pre @ [(k, rendered_template r v)]) @ kvs))
        = JDict ((pre @ [(k, rendered_template r v)]) @ rendered_dict r kvs)"
      by simp
    have "apply_templates r (leaves_dict ((k, v) # kvs)) (JDict (pre @ (k, v) # kvs))
        = apply_templates r (leaves_dict kvs)
            (apply_templates r (map (\<lambda>(raw, p). (raw, K k # p)) (leaves v)) (JDict (pre @ (k, v) # kvs)))"
      by (simp add: apply_templates_append)
    also have "\<dots> = apply_templates r (leaves_dict kvs)
            (JDict ((pre @ [(k, rendered_template r v)]) @ kvs))"
      by (simp add: apply_templates_dict [OF map_of_middle [OF k]] v update_middle [OF k])
    also note kvs
    finally show "apply_templates r (leaves_dict ((k, v) # kvs)) (JDict (pre @ (k, v) # kvs))
        = JDict (pre @ rendered_dict r ((k, v) # kvs))"
      by simp
  qed
qed

lemma render_templates_apply:
  "\<forall>t \<in> set tmpls. snd t \<noteq> [] \<Longrightarrow>
   render_templates render tmpls own v = apply_templates (\<lambda>raw. render raw own) tmpls v"
proof (induction tmpls arbitrary: v)
  case Nil
  show ?case by (simp add: render_templates_def apply_templates_def)
next
  case (Cons t ts)
  obtain raw p where t: "t = (raw, p)" by (cases t)
  from Cons.prems have p: "p \<noteq> []" by (simp add: t)
  from Cons.prems have "\<forall>t \<in> set ts. snd t \<noteq> []" by simp
  from Cons.IH [OF this] show ?case
    by (simp add: render_templates_def apply_templates_def t write_at_def p)
qed

lemma leaves_dict_paths: "t \<in> set (leaves_dict kvs) \<Longrightarrow> snd t \<noteq> []"
  by (induction kvs) auto

lemma leaves_placeholders:
  shows "\<forall>t \<in> set (leaves v). placeholders (fst t) \<noteq> []"
    and "\<forall>t \<in> set (leaves_list i xs). placeholders (fst t) \<noteq> []"
    and "\<forall>t \<in> set (leaves_dict kvs). placeholders (fst t) \<noteq> []"
  by (induction v and i xs and kvs rule: leaves_leaves_list_leaves_dict.induct) auto

lemma extract_reads_leaves:
  shows "well_formed v \<longrightarrow>
           map (\<lambda>(p, vs). (get_value_by_keys v p, p)) (extract_jinja_indices v)
             = map (\<lambda>(raw, p). (Some (JStr raw), p)) (leaves v)"
    and "\<forall>pre. length pre = i \<longrightarrow> well_formed_list xs \<longrightarrow>
           map (\<lambda>(p, vs). (get_value_by_keys (JList (pre @ xs)) p, p)) (extract_list i xs)
             = map (\<lambda>(raw, p). (Some (JStr raw), p)) (leaves_list i xs)"
    and "\<forall>pre. distinct (map fst (pre @ kvs)) \<longrightarrow> well_formed_dict kvs \<longrightarrow>
           map (\<lambda>(p, vs). (get_value_by_keys (JDict (pre @ kvs)) p, p)) (extract_dict kvs)
             = map (\<lambda>(raw, p). (Some (JStr raw), p)) (leaves_dict kvs)"
proof (induction v and i xs and kvs rule: extract_jinja_indices_extract_list_extract_dict.induct)
  case (1 s)
  show ?case by simp
next
  case (2 xs)
  from "2.IH" [rule_format, of "[]"] show ?case by simp
next
  case (3 kvs)
  from "3.IH" [rule_format, of "[]"] show ?case by simp
next
  case 4
  show ?case by simp
next
  case (5 b)
  show ?case by simp
next
  case (6 n)
  show ?case by simp
next
  case (7 i)
  show ?case by simp
next
  case (8 i x xs)
  show ?case
  proof (intro allI impI)
    fix pre :: "jval list"
    assume len: "length pre = i" and wf: "well_formed_list (x # xs)"
    have idx: "py_index (pre @ x # xs) (int i) = Some i"
      using len by (simp add: py_index_def)
    have nth: "(pre @ x # xs) ! i = x"
      unfolding len [symmetric] by simp
    from wf "8.IH"(1)
    have x: "map (\<lambda>(p, vs). (get_value_by_keys x p, p)) (extract_jinja_indices x)
             = map (\<lambda>(raw, p). (Some (JStr raw), p)) (leaves x)"
      by simp
    from len wf "8.IH"(2) [rule_format, of "pre @ [x]"]
    have xs: "map (\<lambda>(p, vs). (get_value_by_keys (JList (pre @ x # xs)) p, p)) (extract_list (Suc i) xs)
             = map (\<lambda>(raw, p). (Some (JStr raw), p)) (leaves_list (Suc i) xs)"
      by simp
    have "map (\<lambda>(p, vs). (get_value_by_keys (JList (pre @ x # xs)) p, p))
            (map (\<lambda>(p, vs). (I (int i) # p, vs)) (extract_jinja_indices x))
        = map (\<lambda>(g, p). (g, I (int i) # p))
            (map (\<lambda>(p, vs). (get_value_by_keys x p, p)) (extract_jinja_indices x))"
      by (simp add: idx nth case_prod_beta)
    also have "\<dots> = map (\<lambda>(raw, p). (Some (JStr raw), p))
            (map (\<lambda>(raw, p). (raw, I (int i) # p)) (leaves x))"
      by (simp add: x case_prod_beta)
    finally show "map (\<lambda>(p, vs). (get_value_by_keys (JList (pre @ x # xs)) p, p)) (extract_list i (x # xs))
             = map (\<lambda>(raw, p). (Some (JStr raw), p)) (leaves_list i (x # xs))"
      using xs by simp
  qed
next
  case 9
  show ?case by simp
next
  case (10 k v kvs)
  show ?case
  proof (intro allI impI)
    fix pre :: "(string \<times> jval) list"
    assume d: "distinct (map fst (pre @ (k, v) # kvs))" and wf: "well_formed_dict ((k, v) # kvs)"
    from d have k: "k \<notin> fst ` set pre" by auto
    have m: "map_of (pre @ (k, v) # kvs) k = Some v"
      by (rule map_of_middle [OF k])
    from wf "10.IH"(1)
    have v: "map (\<lambda>(p, vs). (get_value_by_keys v p, p)) (extract_jinja_indices v)
             = map (\<lambda>(raw, p). (Some (JStr raw), p)) (leaves v)"
      by simp
    from d wf "10.IH"(2) [rule_format, of "pre @ [(k, v)]"]
    have kvs: "map (\<lambda>(p, vs). (get_value_by_keys (JDict (pre @ (k, v) # kvs)) p, p)) (extract_dict kvs)
             = map (\<lambda>(raw, p). (Some (JStr raw), p)) (leaves_dict kvs)"
      by simp
    have "map (\<lambda>(p, vs). (get_value_by_keys (JDict (pre @ (k, v) # kvs)) p, p))
            (map (\<lambda>(p, vs). (K k # p, vs)) (extract_jinja_indices v))
        = map (\<lambda>(g, p). (g, K k # p))
            (map (\<lambda>(p, vs). (get_value_by_keys v p, p)) (extract_jinja_indices v))"
      using m by (simp add: case_prod_beta del: map_of_append)
    also have "\<dots> = map (\<lambda>(raw, p). (Some (JStr raw), p))
            (map (\<lambda>(raw, p). (raw, K k # p)) (leaves v))"
      by (simp add: v case_prod_beta)
    finally show "map (\<lambda>(p, vs). (get_value_by_keys (JDict (pre @ (k, v) # kvs)) p, p)) (extract_dict ((k, v) # kvs))
             = map (\<lambda>(raw, p). (Some (JStr raw), p)) (leaves_dict ((k, v) # kvs))"
      using kvs by simp
  qed
qed

lemma placeholders_nonempty: "placeholders s \<noteq> [] \<Longrightarrow> s \<noteq> []"
  by (auto simp: placeholders_def)

lemma init_templates_leaves:
  "map (\<lambda>(p, vs). (get_value_by_keys f p, p)) fwl = map (\<lambda>(raw, p). (Some (JStr raw), p)) ls \<Longrightarrow>
   \<forall>t \<in> set ls. fst t \<noteq> [] \<Longrightarrow>
   init_templates f fwl flds tmpls = Inr (flds @ concat (map snd fwl), tmpls @ ls)"
proof (induction fwl arbitrary: ls flds tmpls)
  case Nil
  then show ?case by simp
next
  case (Cons e fwl)
  obtain p vs where e: "e = (p, vs)" by (cases e)
  from Cons.prems(1) obtain l ls' where ls: "ls = l # ls'" by (cases ls) auto
  obtain raw q where l: "l = (raw, q)" by (cases l)
  from Cons.prems(1) have g: "get_value_by_keys f p = Some (JStr raw)" and q: "q = p"
    and rest: "map (\<lambda>(p, vs). (get_value_by_keys f p, p)) fwl = map (\<lambda>(raw, p). (Some (JStr raw), p)) ls'"
    by (auto simp: e ls l)
  from Cons.prems(2) have raw: "raw \<noteq> []" and ne: "\<forall>t \<in> set ls'. fst t \<noteq> []"
    by (simp_all add: ls l)
  from Cons.IH [OF rest ne, of "flds @ vs" "tmpls @ [(raw, p)]"] show ?case
    by (simp add: e ls l g q raw)
qed

lemma AIAction_init_template:
  assumes "well_formed (JDict d)"
    and "set (map fst mparams) \<subseteq> set (map name (vars m))"
  shows "AIAction_init nid m mparams (FnDict d) outs
     = Inr \<lparr>node_id = nid, model = m, model_params = mparams, fn = FnDict d,
            action_source = JTYPE,
            a_fields = concat (map snd (extract_jinja_indices (JDict d))),
            outputs = outs, templates = leaves (JDict d)\<rparr>"
proof -
  from assms(1) extract_reads_leaves(1) [of "JDict d"]
  have m: "map (\<lambda>(p, vs). (get_value_by_keys (JDict d) p, p)) (extract_jinja_indices (JDict d))
             = map (\<lambda>(raw, p). (Some (JStr raw), p)) (leaves (JDict d))"
    by blast
  have ne: "\<forall>t \<in> set (leaves (JDict d)). fst t \<noteq> []"
    using leaves_placeholders(1) [of "JDict d"] placeholders_nonempty by blast
  from init_templates_leaves [OF m ne, of "[]" "[]"] assms(2) show ?thesis
    by (simp add: AIAction_init_def)
qed

lemma take_fields_succeeds:
  "distinct (map name fs) \<Longrightarrow> \<forall>f \<in> set fs. dict_has data (name f) \<Longrightarrow>
   \<exists>rest own'. take_fields nid fs data own = Inr (rest, own')
      \<and> (\<forall>k. map_of own' k = (if k \<in> set (map name fs) then map_of data k else map_of own k))"
proof (induction fs arbitrary: data own)
  case Nil
  show ?case by simp
next
  case (Cons f fs)
  let ?data = "AList.delete (name f) data"
  let ?own = "AList.update (name f) (dict_get data (name f) JNull) own"
  from Cons.prems have d: "distinct (map name fs)" and nf: "name f \<notin> set (map name fs)"
    by simp_all
  from Cons.prems(2) have hf: "dict_has data (name f)" by simp
  have h: "\<forall>g \<in> set fs. dict_has ?data (name g)"
  proof
    fix g assume g: "g \<in> set fs"
    then have "name g \<in> set (map name fs)" by simp
    with nf have "name g \<noteq> name f" by metis
    moreover from g Cons.prems(2) have "dict_has data (name g)" by simp
    ultimately show "dict_has ?data (name g)"
      by (simp add: dict_has_map_of delete_conv')
  qed
  from Cons.IH [OF d h, of ?own] obtain rest own' where
    t: "take_fields nid fs ?data ?own = Inr (rest, own')"
    and o: "\<forall>k. map_of own' k = (if k \<in> set (map name fs) then map_of ?data k else map_of ?own k)"
    by blast
  from hf obtain x where x: "map_of data (name f) = Some x"
    by (auto simp: dict_has_map_of)
  have "\<forall>k. map_of own' k = (if k \<in> set (map name (f # fs)) then map_of data k else map_of own k)"
    using o nf x by (auto simp: delete_conv' update_conv' dict_get_def)
  with t hf show ?case by simp
qed

text \<open>
  The round trip of the claim C1 where no variable is named by two placeholder leaves: the
  constructed action, invoked with a payload that holds every variable, produces the template
  with each placeholder leaf replaced by the rendering of that leaf (and the template of the
  action is the one it was built from).
\<close>

lemma template_round_trip:
  assumes "well_formed (JDict d)"
    and "AIAction_init nid m mparams (FnDict d) outs = Inr a"
    and "distinct (map name (a_fields a))"
    and "\<forall>f \<in> set (a_fields a). dict_has data (name f)"
  shows "\<exists>rest own. take_fields (node_id a) (a_fields a) data [] = Inr (rest, own)
       \<and> (\<forall>k. map_of own k = (if k \<in> set (map name (a_fields a)) then map_of data k else None))
       \<and> produce render a own = Continue (rendered_template (\<lambda>raw. render raw own) (JDict d))
       \<and> fn a = FnDict d"
proof -
  from assms(2) have sub: "set (map fst mparams) \<subseteq> set (map name (vars m))"
    by (auto simp: AIAction_init_def split: if_splits)
  from AIAction_init_template [OF assms(1) sub, of nid outs] assms(2)
  have a: "a = \<lparr>node_id = nid, model = m, model_params = mparams, fn = FnDict d,
            action_source = JTYPE,
            a_fields = concat (map snd (extract_jinja_indices (JDict d))),
            outputs = outs, templates = leaves (JDict d)\<rparr>"
    by simp
  from take_fields_succeeds [OF assms(3,4), of "node_id a" "[]"] obtain rest own where
    t: "take_fields (node_id a) (a_fields a) data [] = Inr (rest, own)"
    and o: "\<forall>k. map_of own k = (if k \<in> set (map name (a_fields a)) then map_of data k else None)"
    by auto
  have ne: "\<forall>t \<in> set (leaves (JDict d)). snd t \<noteq> []"
    using leaves_dict_paths by simp
  from assms(1) apply_templates_leaves(1) [of "JDict d" "\<lambda>raw. render raw own"]
  have r: "apply_templates (\<lambda>raw. render raw own) (leaves (JDict d)) (JDict d)
         = rendered_template (\<lambda>raw. render raw own) (JDict d)"
    by blast
  have "produce render a own = Continue (render_templates render (leaves (JDict d)) own (JDict d))"
    by (simp add: produce_def a)
  also have "render_templates render (leaves (JDict d)) own (JDict d)
         = apply_templates (\<lambda>raw. render raw own) (leaves (JDict d)) (JDict d)"
    by (rule render_templates_apply [OF ne])
  also note r
  finally have p: "produce render a own = Continue (rendered_template (\<lambda>raw. render raw own) (JDict d))" .
  from t o p a show ?thesis by auto
qed

lemma template_round_trip_example:
  "produce render_simple chat_action [(''text'', JStr ''hi'')]
     = Continue (rendered_template (\<lambda>raw. render_simple raw [(''text'', JStr ''hi'')]) (JDict chat_template))
   \<and> rendered_template (\<lambda>raw. render_simple raw [(''text'', JStr ''hi'')]) (JDict chat_template)
     = JDict [(''messages'', JList [JDict [(''role'', JStr ''user''), (''content'', JStr ''Say hi'')]])]"
proof -
  have wf: "well_formed (JDict chat_template)"
    by (simp add: chat_template_def)
  have d: "distinct (map name (a_fields chat_action))"
    by (simp add: chat_action_def)
  have h: "\<forall>f \<in> set (a_fields chat_action). dict_has [(''text'', JStr ''hi'')] (name f)"
    by (simp add: chat_action_def text_var_def dict_has_def)
  from template_round_trip [OF wf chat_init d h, of render_simple] obtain rest own where
    t: "take_fields (node_id chat_action) (a_fields chat_action) [(''text'', JStr ''hi'')] [] = Inr (rest, own)"
    and p: "produce render_simple chat_action own
         = Continue (rendered_template (\<lambda>raw. render_simple raw own) (JDict chat_template))"
    by blast
  have "take_fields (node_id chat_action) (a_fields chat_action) [(''text'', JStr ''hi'')] []
      = Inr ([], [(''text'', JStr ''hi'')])"
    by (simp add: chat_action_def text_var_def dict_has_def dict_get_def AList.delete_eq)
  with t have own: "own = [(''text'', JStr ''hi'')]" by simp
  have r: "rendered_template (\<lambda>raw. render_simple raw [(''text'', JStr ''hi'')]) (JDict chat_template)
     = JDict [(''messages'', JList [JDict [(''role'', JStr ''user''), (''content'', JStr ''Say hi'')]])]"
    by (simp add: chat_template_def placeholders_def render_simple_def strip_def)
  from p own r show ?thesis by simp
qed

end
